theory Spec2Isabelle
  imports Complex_Main "HOL-Library.Char_ord" "HOL-Library.List_Lexorder"
    "HOL-Library.Product_Lexorder" "HOL-Library.Multiset"
begin

section \<open>The image download orchestrator (scripts/01\_download\_images.py)\<close>

text \<open>
  The script talks to three collaborators: the Earth Engine job platform, the
  PostgreSQL table \<open>image_downloads\<close> (the ledger) and the operator's terminal.
  The embedding makes each of them explicit. The ledger is a map from
  \<open>image_id\<close> to a row. Every line the script writes and every call it makes to
  a collaborator is recorded, with the answer it got, as an \<open>event\<close> in a trace,
  in the order of the script. The answers come from an environment record; its
  functions receive the trace so far, so an answer may depend on everything that
  happened before. A Python exception is a value of \<open>py_exception\<close>, and a
  block that may raise returns the exception beside the state it reached. A
  fraction or threshold (a Python float) is a \<open>real\<close>, which leaves rounding and
  NaN outside the model. The discovery of the scenes (\<open>ee_query\<close>) and the
  parsing of the command line are not modelled: the loops start from the table
  of grid patches and the table of candidate scenes.
\<close>

subsection \<open>Strings and paths\<close>

definition startswith :: "string \<Rightarrow> string \<Rightarrow> bool" where
  \<comment> \<open>\<open>s.startswith(p)\<close>\<close>
  "startswith s p = (take (length p) s = p)"

definition endswith :: "string \<Rightarrow> string \<Rightarrow> bool" where
  \<comment> \<open>\<open>s.endswith(p)\<close>\<close>
  "endswith s p = (drop (length s - length p) s = p \<and> length p \<le> length s)"

fun str_contains :: "string \<Rightarrow> string \<Rightarrow> bool" where
  \<comment> \<open>\<open>p in s\<close> for strings: \<open>str_contains p s\<close>\<close>
  "str_contains p [] = (p = [])"
| "str_contains p (c # cs) = (startswith (c # cs) p \<or> str_contains p cs)"

definition strip_last5 :: "string \<Rightarrow> string" where
  \<comment> \<open>\<open>desc[:-5]\<close>: a string shorter than five characters becomes empty\<close>
  "strip_last5 s = take (length s - 5) s"

definition path_join2 :: "string \<Rightarrow> string \<Rightarrow> string" where
  \<comment> \<open>one step of \<open>posixpath.join\<close>\<close>
  "path_join2 a b =
     (if startswith b ''/'' then b
      else if a = [] \<or> endswith a ''/'' then a @ b
      else a @ ''/'' @ b)"

definition path_join :: "string \<Rightarrow> string list \<Rightarrow> string" where
  \<comment> \<open>\<open>os.path.join(a, *ps)\<close>\<close>
  "path_join a ps = foldl path_join2 a ps"

subsection \<open>Exceptions, log lines and events\<close>

datatype py_exception =
    NameError string
  | KeyError string
  | RaisedError string
  \<comment> \<open>\<open>RaisedError\<close>: what a collaborator raises, with its message\<close>

type_synonym unit_key = "string \<times> string \<times> string \<times> string"
  \<comment> \<open>the group key \<open>(patch_name, solarday, satellite, mode)\<close>\<close>

type_synonym task = nat
  \<comment> \<open>an \<open>ee.batch.Task\<close> handle, opaque\<close>

datatype log_line =
    LProcessing nat unit_key
  | LFileNamePrefix string
  | LTaskAlreadyRunning string
  | LQueryingDatabase
  | LImageFound
  | LDownloaded
  | LSkippingExisting
  | LNotDownloaded
  | LCheckingThresholds
  | LValidPixels real real
  | LTooLow
  | LOk
  | LCloudPixels real real
  | LTooHigh
  | LSubmitting
  | LWillNotDownload
  | LNumTasks nat
  | LUpdatingDatabase
  | LTraceback py_exception
  | LProcessingPatch string
  | LImageAlreadyDownloaded
  | LImageNotAlreadyDownloaded
  | LCommandingDownload
  | LSubmittedWater
  | LWarnFloodEnd
  | LFloodDuration int
  | LWarnRefEnd
  | LRefDuration int
  | LTotalTasks nat
  | LActiveTasks nat
  | LPolling
  | LTaskError string
  | LTaskCompleted string
  | LAllCompleted nat
  | LFormattingS2
  | LFormattingLandsat

subsection \<open>The quality gate (main, lines 469--492)\<close>

record thresholds =
  threshold_clouds_flood :: real
  threshold_clouds_ref :: real
  threshold_invalids_flood :: real
  threshold_invalids_ref :: real

record info_ee =
  cloud_probability :: real
  valids :: real

definition thresh_valid :: "thresholds \<Rightarrow> string \<Rightarrow> real" where
  "thresh_valid th mode =
     (if mode = ''ref'' then 1 - threshold_invalids_ref th
      else 1 - threshold_invalids_flood th)"

definition thresh_cloud :: "thresholds \<Rightarrow> string \<Rightarrow> real" where
  "thresh_cloud th mode =
     (if mode = ''ref'' then threshold_clouds_ref th
      else threshold_clouds_flood th)"

definition quality_gate :: "thresholds \<Rightarrow> string \<Rightarrow> info_ee \<Rightarrow> bool \<times> log_line list" where
  \<comment> \<open>returns the flag \<open>download\<close> and the lines written, in order\<close>
  "quality_gate th mode info =
     (let download = True;
          log = [LCheckingThresholds];
          tv = thresh_valid th mode;
          tc = thresh_cloud th mode;
          log = log @ [LValidPixels (valids info) tv];
          (download, log) =
             (if valids info < tv then (False, log @ [LTooLow])
              else (download, log @ [LOk]));
          log = log @ [LCloudPixels (cloud_probability info / 100) tc];
          (download, log) =
             (if cloud_probability info / 100 > tc then (False, log @ [LTooHigh])
              else (download, log @ [LOk]))
      in (download, log))"

subsection \<open>The date ranges (main, lines 155--182)\<close>

text \<open>
  A \<open>datetime\<close> with a time zone is an instant, here an integer count of
  microseconds. \<open>sys.exit\<close> with a message ends the process: the result is the
  message on the left. The lines printed before the exit are kept.
\<close>

record periods =
  period_flood_start :: int
  period_flood_end :: int
  period_ref :: "(int \<times> int) option"

definition set_periods ::
  "int \<Rightarrow> int \<Rightarrow> int \<Rightarrow> int option \<Rightarrow> int option \<Rightarrow> log_line list \<times> (string + periods)" where
  "set_periods today_date flood_start_date flood_end_date ref_start_date ref_end_date =
     (let do_download_ref = \<not> (ref_start_date = None \<or> ref_end_date = None);
          log = [];
          (flood_end_date, log) =
             (if flood_end_date > today_date then (today_date, log @ [LWarnFloodEnd])
              else (flood_end_date, log))
      in if flood_start_date > today_date
         then (log, Inl ''[ERR] Flood start date set to future time!'')
         else
           let log = log @ [LFloodDuration (flood_end_date - flood_start_date)] in
           (case (do_download_ref, ref_start_date, ref_end_date) of
              (True, Some rs, Some re) \<Rightarrow>
                (let (re, log) =
                       (if re > today_date then (today_date, log @ [LWarnRefEnd])
                        else (re, log))
                 in if rs > today_date
                    then (log, Inl ''[ERR] Ref start date set to future time!'')
                    else (log @ [LRefDuration (re - rs)],
                          Inr \<lparr>period_flood_start = flood_start_date,
                               period_flood_end = flood_end_date,
                               period_ref = Some (rs, re)\<rparr>))
            | _ \<Rightarrow>
                (log, Inr \<lparr>period_flood_start = flood_start_date,
                           period_flood_end = flood_end_date,
                           period_ref = None\<rparr>)))"

subsection \<open>Grid patches and their duplicates (main, lines 232--251)\<close>

type_synonym geometry = string
  \<comment> \<open>a footprint, as its well-known text; only the geometry library reads it\<close>

record aoi =
  aoi_patch_name :: string
  aoi_geometry :: geometry

text \<open>
  \<open>DataFrame.drop_duplicates(subset=['patch_name'], keep='first',
  ignore_index=True)\<close> walks the rows in order and keeps a row when no row
  before it carries its name; \<open>seen\<close> holds the names met so far.
\<close>

fun drop_duplicates_seen :: "string list \<Rightarrow> aoi list \<Rightarrow> aoi list" where
  "drop_duplicates_seen seen [] = []"
| "drop_duplicates_seen seen (r # rs) =
     (if aoi_patch_name r \<in> set seen then drop_duplicates_seen seen rs
      else r # drop_duplicates_seen (aoi_patch_name r # seen) rs)"

definition drop_duplicates :: "aoi list \<Rightarrow> aoi list" where
  "drop_duplicates aois_data = drop_duplicates_seen [] aois_data"

definition fresh :: "string list \<Rightarrow> aoi list \<Rightarrow> nat \<Rightarrow> bool" where
  \<comment> \<open>row \<open>i\<close> carries a name that is neither in \<open>seen\<close> nor in a row before it\<close>
  "fresh seen rows i =
     (aoi_patch_name (rows ! i) \<notin> set seen \<union> set (map aoi_patch_name (take i rows)))"

definition later_occurrences :: "aoi list \<Rightarrow> nat list" where
  \<comment> \<open>the positions of the rows whose name already stands in an earlier row\<close>
  "later_occurrences rows =
     filter (\<lambda>i. aoi_patch_name (rows ! i) \<in> set (map aoi_patch_name (take i rows)))
       [0..<length rows]"

definition first_occurrences :: "aoi list \<Rightarrow> nat list" where
  \<comment> \<open>the positions of the rows whose name stands in no earlier row\<close>
  "first_occurrences rows =
     filter (\<lambda>i. aoi_patch_name (rows ! i) \<notin> set (map aoi_patch_name (take i rows)))
       [0..<length rows]"

definition select_patches :: "string \<Rightarrow> aoi list \<Rightarrow> string + aoi list" where
  \<comment> \<open>lines 232--251: duplicates, the empty selection, the filter by one name\<close>
  "select_patches grid_name_filter aois_data =
     (let aois_data = drop_duplicates aois_data in
      if length aois_data = 0 then Inl ''[ERR] No valid grid patches selected - exiting.''
      else if grid_name_filter \<noteq> [] then
        (let aois_data = filter (\<lambda>a. aoi_patch_name a = grid_name_filter) aois_data in
         if \<not> length aois_data > 0
         then Inl (''[ERR] '' @ grid_name_filter @ '' not found in selection.'')
         else Inr aois_data)
      else Inr aois_data)"

subsection \<open>Candidate scenes and their groups (main, lines 344--350)\<close>

record scene =
  patch_name :: string
  solarday :: string
  satellite :: string
  mode :: string
  gee_id :: string
  collection_name :: string
  s2cloudless :: bool
  utcdatetime :: real
  solardatetime :: real
  geometry :: geometry

definition key_of :: "scene \<Rightarrow> unit_key" where
  "key_of r = (patch_name r, solarday r, satellite r, mode r)"

text \<open>
  \<open>DataFrame.groupby([...])\<close> with its defaults: one group for every key that
  occurs, the groups in the order of their keys, the rows of a group in the
  order of the table.
\<close>

definition groupby :: "scene list \<Rightarrow> (unit_key \<times> scene list) list" where
  "groupby aois_images =
     map (\<lambda>k. (k, filter (\<lambda>r. key_of r = k) aois_images))
       (sort (remdups (map key_of aois_images)))"

subsection \<open>The ledger (table \<open>image_downloads\<close>)\<close>

record image_download =
  row_patch_name :: "string option"
  row_satellite :: "string option"
  row_date :: "string option"
  row_datetime :: "real option"
  row_solarday :: "string option"
  row_solardatetime :: "real option"
  row_cloud_probability :: "real option"
  row_valids :: "real option"
  row_status :: int
  row_data_path :: "string option"

type_synonym ledger = "string \<rightharpoonup> image_download"

definition upsert :: "ledger \<Rightarrow> string \<Rightarrow> image_download \<Rightarrow> ledger" where
  \<comment> \<open>\<open>INSERT ... ON CONFLICT (image_id) DO UPDATE SET cloud_probability, valids,
      status, data_path\<close>\<close>
  "upsert led image_id new =
     (case led image_id of
        None \<Rightarrow> led(image_id \<mapsto> new)
      | Some old \<Rightarrow>
          led(image_id \<mapsto> old\<lparr>row_cloud_probability := row_cloud_probability new,
                               row_valids := row_valids new,
                               row_status := row_status new,
                               row_data_path := row_data_path new\<rparr>))"

definition update_status :: "ledger \<Rightarrow> string \<Rightarrow> int \<Rightarrow> ledger" where
  \<comment> \<open>\<open>UPDATE image_downloads SET status = %s WHERE image_id = %s\<close>\<close>
  "update_status led image_id status =
     (case led image_id of
        None \<Rightarrow> led
      | Some old \<Rightarrow> led(image_id \<mapsto> old\<lparr>row_status := status\<rparr>))"

subsection \<open>Events, the environment and the state\<close>

record export_spec =
  es_image_ids :: "string list"
  es_bands :: "string list"
  es_fileNamePrefix :: string
  es_description :: string
  es_crs :: string
  es_bucket :: string
  es_scale :: nat

text \<open>
  An event is a line written to the terminal or a call to a collaborator with the
  answer it gave. \<open>EvWarn\<close> and \<open>EvWarnWater\<close> are the calls of
  \<open>warnings.warn\<close>, which line 28 of the script silences.
\<close>

datatype event =
    EvLog log_line
  | EvWarn nat unit_key
  | EvWarnWater string
  | EvIsTaskRunning string "py_exception + bool"
  | EvSelect string "py_exception + image_download option"
  | EvValidPercentage string "py_exception + real"
  | EvGetInfo "string list" "py_exception + info_ee"
  | EvExport export_spec "py_exception + task"
  | EvUpsert string image_download "py_exception option"
  | EvDownloadPermanentWater string "py_exception + task option"
  | EvActive task bool
  | EvUpdateStatus string int
  | EvSleep nat

text \<open>
  The collaborators. A function that takes an \<open>event list\<close> is asked with the
  trace so far. \<open>istaskrunning\<close> is the query of \<open>ee_download\<close> for an active
  task with a description. \<open>run_query_raises\<close> says whether the next query of
  the two loops of \<open>main\<close> fails. \<open>valid_percentage\<close> is the area of the patch covered by the
  footprints over the area of the patch (lines 408--411), computed by the
  geometry library; \<open>getInfo\<close> is the remote computation of the two metrics
  (lines 436--467), and stands for every call of the Earth Engine client that
  builds the image before it; a metric that comes back as \<open>None\<close> makes the
  threshold lines raise before any further call and is counted among its
  failures. \<open>toCloudStorage_start\<close> creates and starts the export task (lines
  511--523). The last three fields are what a task handle answers in a polling
  pass of the monitor: the pass number stands for the time of the question.
\<close>

record env =
  istaskrunning :: "event list \<Rightarrow> string \<Rightarrow> py_exception + bool"
  run_query_raises :: "event list \<Rightarrow> py_exception option"
  valid_percentage :: "geometry \<Rightarrow> geometry list \<Rightarrow> py_exception + real"
  get_channel_configuration_bands :: "string \<Rightarrow> string \<Rightarrow> string list"
  getInfo :: "event list \<Rightarrow> string \<Rightarrow> string list \<Rightarrow> py_exception + info_ee"
  convert_wgs_to_utm :: "geometry \<Rightarrow> string"
  toCloudStorage_start :: "event list \<Rightarrow> export_spec \<Rightarrow> py_exception + task"
  download_permanent_water ::
    "event list \<Rightarrow> string \<Rightarrow> string \<Rightarrow> string \<Rightarrow> py_exception + task option"
  task_active :: "nat \<Rightarrow> task \<Rightarrow> bool"
  task_state :: "nat \<Rightarrow> task \<Rightarrow> string"
  task_description :: "task \<Rightarrow> string"

record config =
  cfg_thresholds :: thresholds
  bucket_uri :: string
  channel_configuration :: string
  flood_start_year :: string

record state =
  ledger :: ledger
  tasks :: "task list"
  trace :: "event list"

definition emit :: "event \<Rightarrow> state \<Rightarrow> state" where
  "emit ev st = st\<lparr>trace := trace st @ [ev]\<rparr>"

definition tq_write :: "log_line \<Rightarrow> state \<Rightarrow> state" where
  \<comment> \<open>\<open>tq.write\<close> and \<open>print\<close>\<close>
  "tq_write l st = emit (EvLog l) st"

definition tq_write_all :: "log_line list \<Rightarrow> state \<Rightarrow> state" where
  "tq_write_all ls st = st\<lparr>trace := trace st @ map EvLog ls\<rparr>"

definition new_events :: "state \<Rightarrow> state \<Rightarrow> event list" where
  \<comment> \<open>the events that \<open>st'\<close> has after those of \<open>st\<close>\<close>
  "new_events st st' = drop (length (trace st)) (trace st')"

definition call_istaskrunning ::
  "env \<Rightarrow> string \<Rightarrow> state \<Rightarrow> (py_exception + bool) \<times> state" where
  "call_istaskrunning env desc st =
     (let r = istaskrunning env (trace st) desc
      in (r, emit (EvIsTaskRunning desc r) st))"

definition run_select ::
  "env \<Rightarrow> string \<Rightarrow> state \<Rightarrow> (py_exception + image_download option) \<times> state" where
  \<comment> \<open>Modelled from the spec: \<open>DB.run_query\<close> of \<open>db_utils\<close>, which is not among
      the sources, is the ledger's lookup by key. It runs the statement it is
      given, here \<open>SELECT ... FROM image_downloads WHERE image_id = %s\<close>, and
      returns the rows found, or raises.\<close>
  "run_select env image_id st =
     (let r = (case run_query_raises env (trace st) of
                 Some e \<Rightarrow> Inl e
               | None \<Rightarrow> Inr (ledger st image_id))
      in (r, emit (EvSelect image_id r) st))"

definition do_update_download ::
  "env \<Rightarrow> string \<Rightarrow> string option \<Rightarrow> string option \<Rightarrow> string option \<Rightarrow> real option \<Rightarrow>
   real option \<Rightarrow> real option \<Rightarrow> real option \<Rightarrow> int \<Rightarrow> string option \<Rightarrow> state \<Rightarrow>
   py_exception option \<times> state" where
  \<comment> \<open>lines 115--134; the statement is run by \<open>DB.run_query\<close>, which applies it
      to the table (\<open>upsert\<close>) or raises\<close>
  "do_update_download env desc name constellation solar_day utcdatetime_save
       solardatetime_save cloud_prob valid_frac status data_path st =
     (let data = \<lparr>row_patch_name = name, row_satellite = constellation,
                  row_date = solar_day, row_datetime = utcdatetime_save,
                  row_solarday = solar_day, row_solardatetime = solardatetime_save,
                  row_cloud_probability = cloud_prob, row_valids = valid_frac,
                  row_status = status, row_data_path = data_path\<rparr>;
          r = run_query_raises env (trace st);
          st = emit (EvUpsert desc data r) st
      in (r, case r of
               Some e \<Rightarrow> st
             | None \<Rightarrow> st\<lparr>ledger := upsert (ledger st) desc data\<rparr>))"

subsection \<open>One export unit (main, lines 349--545)\<close>

definition rel_grid_path :: string where
  "rel_grid_path = ''0_DEV/1_Staging/GRID''"

fun str_remove :: "string \<Rightarrow> string \<Rightarrow> string" where
  \<comment> \<open>\<open>s.replace(p, "")\<close>: \<open>str_remove p s\<close>\<close>
  "str_remove p [] = []"
| "str_remove p (c # cs) =
     (if p \<noteq> [] \<and> startswith (c # cs) p then str_remove p (drop (length p - 1) cs)
      else c # str_remove p cs)"

definition bucket_name :: "config \<Rightarrow> string" where
  \<comment> \<open>\<open>bucket_uri.replace("gs://","").split("/")[0]\<close>\<close>
  "bucket_name cfg = takeWhile (\<lambda>c. c \<noteq> CHR ''/'') (str_remove ''gs://'' (bucket_uri cfg))"

definition bucket_grid_path :: "config \<Rightarrow> string" where
  "bucket_grid_path cfg = path_join (bucket_uri cfg) [rel_grid_path]"

definition constellation_of :: "string \<Rightarrow> string" where
  "constellation_of sat = (if startswith sat ''S2'' then ''S2'' else ''Landsat'')"

definition desc_of :: "unit_key \<Rightarrow> string" where
  \<comment> \<open>the description of the unit's task and the key of its ledger row\<close>
  "desc_of key =
     (case key of (name, solar_day, sat, tag) \<Rightarrow>
        name @ ''_'' @ constellation_of sat @ ''_'' @ solar_day)"

definition fix_landsat_gee_id :: "string \<Rightarrow> string" where
  "fix_landsat_gee_id g =
     (if (startswith g ''1_'' \<or> startswith g ''2_'') \<and> str_contains ''LC'' g then drop 2 g
      else g)"

definition mean :: "real list \<Rightarrow> real" where
  "mean xs = sum_list xs / real (length xs)"

definition compute_info_ee ::
  "env \<Rightarrow> config \<Rightarrow> aoi list \<Rightarrow> string \<Rightarrow> string \<Rightarrow> scene list \<Rightarrow> state \<Rightarrow>
   (py_exception + (info_ee \<times> string list \<times> string list \<times> geometry)) \<times> state" where
  \<comment> \<open>lines 407--467; returns \<open>info_ee\<close>, the image ids, \<open>channels_down\<close> and
      \<open>polygon_grid\<close>\<close>
  "compute_info_ee env cfg aois_data name constellation images_day_sat st =
     (case find (\<lambda>a. aoi_patch_name a = name) aois_data of
        None \<Rightarrow> (Inl (KeyError name), st)
      | Some a \<Rightarrow>
          let polygon_grid = aoi_geometry a;
              vp = valid_percentage env polygon_grid (map geometry images_day_sat);
              st = emit (EvValidPercentage name vp) st
          in case vp of
               Inl e \<Rightarrow> (Inl e, st)
             | Inr valid_pct \<Rightarrow>
                 let image_ids =
                       map (\<lambda>r. collection_name r @ ''/'' @ fix_landsat_gee_id (gee_id r))
                         images_day_sat;
                     channels_down =
                       get_channel_configuration_bands env (channel_configuration cfg)
                         constellation
                 in if constellation = ''S2'' then
                      if list_all s2cloudless images_day_sat then
                        let st = tq_write LFormattingS2 st;
                            r = getInfo env (trace st) constellation image_ids;
                            st = emit (EvGetInfo image_ids r) st
                        in case r of
                             Inl e \<Rightarrow> (Inl e, st)
                           | Inr info \<Rightarrow>
                               (Inr (info, image_ids, channels_down @ [''probability''],
                                     polygon_grid), st)
                      else
                        (Inr (\<lparr>cloud_probability = - 1, valids = valid_pct\<rparr>, image_ids,
                              channels_down, polygon_grid), st)
                    else
                      let st = tq_write LFormattingLandsat st;
                          r = getInfo env (trace st) constellation image_ids;
                          st = emit (EvGetInfo image_ids r) st
                      in case r of
                           Inl e \<Rightarrow> (Inl e, st)
                         | Inr info \<Rightarrow>
                             (Inr (info, image_ids,
                                   channels_down @ [''probability'', ''QA_PIXEL''],
                                   polygon_grid), st))"

definition download_execution_block ::
  "env \<Rightarrow> config \<Rightarrow> bool \<Rightarrow> string \<Rightarrow> string \<Rightarrow> string \<Rightarrow> string list \<Rightarrow> string list \<Rightarrow>
   geometry \<Rightarrow> state \<Rightarrow> (py_exception + int) \<times> state" where
  \<comment> \<open>lines 498--528; returns \<open>status\<close>\<close>
  "download_execution_block env cfg download constellation fileNamePrefix desc
       image_ids channels_down polygon_grid st =
     (let status = 0 in
      if download then
        let status = - 1;
            crs = convert_wgs_to_utm env polygon_grid;
            scale = (if constellation = ''S2'' then 10 else 30);
            st = tq_write LSubmitting st;
            spec = \<lparr>es_image_ids = image_ids, es_bands = channels_down,
                    es_fileNamePrefix = fileNamePrefix, es_description = desc,
                    es_crs = crs, es_bucket = bucket_name cfg, es_scale = scale\<rparr>;
            r = toCloudStorage_start env (trace st) spec;
            st = emit (EvExport spec r) st
        in case r of
             Inl e \<Rightarrow> (Inl e, st)
           | Inr task \<Rightarrow>
               let st = st\<lparr>tasks := tasks st @ [task]\<rparr>
               in (Inr status, tq_write (LNumTasks (length (tasks st))) st)
      else
        let st = tq_write LWillNotDownload st
        in (Inr status, tq_write (LNumTasks (length (tasks st))) st))"

definition unit_process ::
  "env \<Rightarrow> config \<Rightarrow> aoi list \<Rightarrow> unit_key \<Rightarrow> scene list \<Rightarrow> state \<Rightarrow>
   py_exception option \<times> state" where
  \<comment> \<open>lines 407--540: the metrics, the gate, the submission, the ledger row\<close>
  "unit_process env cfg aois_data key images_day_sat st =
     (case key of (name, solar_day, sat, tag) \<Rightarrow>
        let constellation = constellation_of sat;
            fileNamePrefix = path_join rel_grid_path [name, constellation, solar_day];
            desc = name @ ''_'' @ constellation @ ''_'' @ solar_day
        in case compute_info_ee env cfg aois_data name constellation images_day_sat st of
             (Inl e, st) \<Rightarrow> (Some e, st)
           | (Inr (info, image_ids, channels_down, polygon_grid), st) \<Rightarrow>
               let (download, lines) = quality_gate (cfg_thresholds cfg) tag info;
                   st = tq_write_all lines st;
                   utcdatetime_save = mean (map utcdatetime images_day_sat);
                   solardatetime_save = mean (map solardatetime images_day_sat)
               in case download_execution_block env cfg download constellation
                         fileNamePrefix desc image_ids channels_down polygon_grid st of
                    (Inl e, st) \<Rightarrow> (Some e, st)
                  | (Inr status, st) \<Rightarrow>
                      let data_path =
                            path_join (bucket_uri cfg)
                              [rel_grid_path, name, constellation, solar_day @ ''.tif''];
                          st = tq_write LUpdatingDatabase st
                      in do_update_download env desc (Some name) (Some constellation)
                           (Some solar_day) (Some utcdatetime_save)
                           (Some solardatetime_save) (Some (cloud_probability info))
                           (Some (valids info)) status (Some data_path) st)"

definition unit_body ::
  "env \<Rightarrow> config \<Rightarrow> aoi list \<Rightarrow> unit_key \<Rightarrow> scene list \<Rightarrow> state \<Rightarrow>
   py_exception option \<times> state" where
  \<comment> \<open>the \<open>try\<close> block, lines 360--540; \<open>Some e\<close> when it raises \<open>e\<close>\<close>
  "unit_body env cfg aois_data key images_day_sat st =
     (case key of (name, solar_day, sat, tag) \<Rightarrow>
        let constellation = constellation_of sat;
            fileNamePrefix = path_join rel_grid_path [name, constellation, solar_day];
            st = tq_write (LFileNamePrefix fileNamePrefix) st;
            desc = name @ ''_'' @ constellation @ ''_'' @ solar_day
        in case call_istaskrunning env desc st of
             (Inl e, st) \<Rightarrow> (Some e, st)
           | (Inr True, st) \<Rightarrow> (None, tq_write (LTaskAlreadyRunning desc) st)
           | (Inr False, st) \<Rightarrow>
               (case run_select env desc (tq_write LQueryingDatabase st) of
                  (Inl e, st) \<Rightarrow> (Some e, st)
                | (Inr None, st) \<Rightarrow> unit_process env cfg aois_data key images_day_sat st
                | (Inr (Some img_row), st) \<Rightarrow>
                    let st = tq_write LImageFound st
                    in if row_status img_row = 1
                       then (None, tq_write LSkippingExisting (tq_write LDownloaded st))
                       else unit_process env cfg aois_data key images_day_sat
                              (tq_write LNotDownloaded st)))"

definition process_unit ::
  "env \<Rightarrow> config \<Rightarrow> aoi list \<Rightarrow> nat \<Rightarrow> unit_key \<times> scene list \<Rightarrow> state \<Rightarrow> state" where
  \<comment> \<open>one turn of the loop of line 349: the title, the \<open>try\<close> block, its handler\<close>
  "process_unit env cfg aois_data i grp st =
     (case grp of (key, images_day_sat) \<Rightarrow>
        let st = tq_write (LProcessing i key) st
        in case unit_body env cfg aois_data key images_day_sat st of
             (None, st) \<Rightarrow> st
           | (Some e, st) \<Rightarrow> tq_write (LTraceback e) (emit (EvWarn i key) st))"

fun image_loop ::
  "env \<Rightarrow> config \<Rightarrow> aoi list \<Rightarrow> nat \<Rightarrow> (unit_key \<times> scene list) list \<Rightarrow> state \<Rightarrow> state" where
  "image_loop env cfg aois_data i [] st = st"
| "image_loop env cfg aois_data i (grp # grps) st =
     image_loop env cfg aois_data (Suc i) grps (process_unit env cfg aois_data i grp st)"

subsection \<open>The permanent water layer (main, lines 549--613)\<close>

text \<open>
  The call of line 599 evaluates its arguments from left to right in the scope of
  \<open>main\<close>. \<open>main_scope\<close> lists the names of that scope whose values are
  strings the model carries. The other names bound there are the remaining
  parameters of \<open>main\<close> (\<open>path_aois\<close>, \<open>lga_names\<close>, the dates, the
  thresholds, \<open>collection_placeholder\<close>, \<open>path_env_file\<close>,
  \<open>only_one_previous\<close>, \<open>force_s2cloudless\<close>, \<open>grid_name_filter\<close>), its
  other locals (among them \<open>db_conn\<close>, \<open>aois_data\<close>, \<open>aois_images\<close>,
  \<open>aois_indexed\<close>, \<open>tasks\<close>, \<open>name\<close>, \<open>solar_day\<close>, \<open>satellite\<close>,
  \<open>mode\<close>, \<open>desc\<close>, \<open>aoi_geom\<close>, \<open>query\<close>, \<open>data\<close>, \<open>img_row\<close>,
  \<open>status\<close>, \<open>lon\<close>, \<open>lat\<close>, \<open>task_permanent\<close>), the imports and the three
  functions of the module, and the builtins. The text \<open>patch_name\<close> occurs in the
  script as a column label in quotes and as the attribute \<open>aoi_geom.patch_name\<close>;
  no assignment, parameter or import binds it.
\<close>

definition main_scope ::
  "config \<Rightarrow> string \<Rightarrow> string \<Rightarrow> string \<Rightarrow> (string \<times> string) list" where
  "main_scope cfg image_id crs folder_dest_permament =
     [(''bucket_uri'', bucket_uri cfg),
      (''channel_configuration'', channel_configuration cfg),
      (''rel_grid_path'', rel_grid_path),
      (''bucket_grid_path'', bucket_grid_path cfg),
      (''bucket_name'', bucket_name cfg),
      (''image_id'', image_id),
      (''crs'', crs),
      (''folder_dest_permament'', folder_dest_permament)]"

definition lookup_name :: "(string \<times> string) list \<Rightarrow> string \<Rightarrow> py_exception + string" where
  "lookup_name scope n =
     (case map_of scope n of None \<Rightarrow> Inl (NameError n) | Some v \<Rightarrow> Inr v)"

definition water_body :: "env \<Rightarrow> config \<Rightarrow> aoi \<Rightarrow> state \<Rightarrow> py_exception option \<times> state" where
  \<comment> \<open>the \<open>try\<close> block, lines 559--609; \<open>Some e\<close> when it raises \<open>e\<close>\<close>
  "water_body env cfg aoi_geom st =
     (let image_id = aoi_patch_name aoi_geom @ ''_PERMANENTWATERJRC'';
          st = tq_write LQueryingDatabase st
      in case run_select env image_id st of
           (Inl e, st) \<Rightarrow> (Some e, st)
         | (Inr img_row, st) \<Rightarrow>
             let status = 0;
                 (status, st) =
                    (case img_row of
                       Some row \<Rightarrow> (row_status row, tq_write LImageFound st)
                     | None \<Rightarrow> (status, st))
             in if status = 1 then (None, tq_write LImageAlreadyDownloaded st)
                else
                  let st = tq_write LImageNotAlreadyDownloaded st;
                      crs = convert_wgs_to_utm env (aoi_geometry aoi_geom);
                      folder_dest_permament =
                        path_join (bucket_grid_path cfg)
                          [aoi_patch_name aoi_geom, ''PERMANENTWATERJRC''];
                      st = tq_write LCommandingDownload st;
                      name_task = aoi_patch_name aoi_geom @ ''_PERMANENTWATERJRC'';
                      r = download_permanent_water env (trace st) name_task
                            folder_dest_permament crs;
                      st = emit (EvDownloadPermanentWater name_task r) st
                  in case r of
                       Inl e \<Rightarrow> (Some e, st)
                     | Inr None \<Rightarrow> (None, st)
                     | Inr (Some task_permanent) \<Rightarrow>
                         let st = tq_write LSubmittedWater st;
                             st = st\<lparr>tasks := tasks st @ [task_permanent]\<rparr>;
                             scope = main_scope cfg image_id crs folder_dest_permament
                         in case lookup_name scope ''image_id'' of
                              Inl e \<Rightarrow> (Some e, st)
                            | Inr a1 \<Rightarrow>
                                (case lookup_name scope ''patch_name'' of
                                   Inl e \<Rightarrow> (Some e, st)
                                 | Inr a2 \<Rightarrow>
                                     do_update_download env a1 (Some a2)
                                       (Some ''PERMANENTWATERJRC'')
                                       (Some (flood_start_year cfg @ ''-01-01''))
                                       None None None None (- 1)
                                       (Some folder_dest_permament) st))"

definition process_aoi :: "env \<Rightarrow> config \<Rightarrow> aoi \<Rightarrow> state \<Rightarrow> state" where
  \<comment> \<open>one turn of the loop of line 553\<close>
  "process_aoi env cfg aoi_geom st =
     (let st = tq_write (LProcessingPatch (aoi_patch_name aoi_geom)) st
      in case water_body env cfg aoi_geom st of
           (None, st) \<Rightarrow> st
         | (Some e, st) \<Rightarrow>
             tq_write (LTraceback e) (emit (EvWarnWater (aoi_patch_name aoi_geom)) st))"

fun water_loop :: "env \<Rightarrow> config \<Rightarrow> aoi list \<Rightarrow> state \<Rightarrow> state" where
  "water_loop env cfg [] st = st"
| "water_loop env cfg (aoi_geom # rest) st =
     water_loop env cfg rest (process_aoi env cfg aoi_geom st)"

subsection \<open>The task monitor (monitor\_tasks, lines 30--95)\<close>

text \<open>
  \<open>monitor_tasks\<close> has no handler: a call that raises ends the script. The
  model follows the passes in which the platform and the database answer. What
  a handle answers within one pass is one snapshot: \<open>task_active\<close>, and for a
  handle that is not active \<open>task_state\<close> and \<open>task_description\<close>, which the
  script reads again at each use. The loop has no bound of its own, so the model
  runs it on fuel, one unit for each pass: \<open>None\<close> says that the fuel ran out
  with handles still active.
\<close>

definition interval_s :: nat where
  "interval_s = 10"

definition run_update :: "string \<Rightarrow> int \<Rightarrow> state \<Rightarrow> state" where
  "run_update desc status st =
     emit (EvUpdateStatus desc status)
       (st\<lparr>ledger := update_status (ledger st) desc status\<rparr>)"

definition normalise_desc :: "string \<Rightarrow> string" where
  \<comment> \<open>lines 73--76\<close>
  "normalise_desc desc =
     (if str_contains ''PERMANENTWATERJRC'' desc then strip_last5 desc else desc)"

definition poll_task ::
  "env \<Rightarrow> nat \<Rightarrow> (string \<times> task) list \<times> nat \<times> state \<Rightarrow> string \<times> task \<Rightarrow>
   (string \<times> task) list \<times> nat \<times> state" where
  \<comment> \<open>the body of the loop of line 64, on \<open>active_tasks_new\<close>, \<open>task_error_count\<close>
      and the state\<close>
  "poll_task env pass acc tt =
     (case acc of (active_tasks_new, task_error_count, st) \<Rightarrow>
      case tt of (t, task) \<Rightarrow>
        let a = task_active env pass task;
            st = emit (EvActive task a) st
        in if a then (active_tasks_new @ [(t, task)], task_error_count, st)
           else
             let desc = normalise_desc (task_description env task)
             in if task_state env pass task \<noteq> ''COMPLETED'' then
                  let st = tq_write (LTaskError t) st;
                      task_error_count = task_error_count + 1
                  in (active_tasks_new, task_error_count, run_update desc 0 st)
                else if task_state env pass task = ''COMPLETED'' then
                  let st = tq_write (LTaskCompleted t) st
                  in (active_tasks_new, task_error_count, run_update desc 1 st)
                else (active_tasks_new, task_error_count, st))"

definition monitor_pass ::
  "env \<Rightarrow> nat \<Rightarrow> (string \<times> task) list \<Rightarrow> nat \<Rightarrow> state \<Rightarrow>
   (string \<times> task) list \<times> nat \<times> state" where
  "monitor_pass env pass active_tasks task_error_count st =
     foldl (poll_task env pass) ([], task_error_count, st) active_tasks"

fun monitor_loop ::
  "nat \<Rightarrow> env \<Rightarrow> nat \<Rightarrow> (string \<times> task) list \<Rightarrow> nat \<Rightarrow> state \<Rightarrow> (nat \<times> state) option" where
  "monitor_loop fuel env pass [] task_error_count st = Some (task_error_count, st)"
| "monitor_loop 0 env pass (a # as) task_error_count st = None"
| "monitor_loop (Suc fuel) env pass (a # as) task_error_count st =
     (let st = tq_write (LActiveTasks (length (a # as))) st;
          st = tq_write LPolling st;
          (active_tasks_new, task_error_count, st) =
             monitor_pass env pass (a # as) task_error_count st;
          st = emit (EvSleep interval_s) st
      in monitor_loop fuel env (Suc pass) active_tasks_new task_error_count st)"

definition monitor_tasks :: "nat \<Rightarrow> env \<Rightarrow> task list \<Rightarrow> state \<Rightarrow> state option" where
  "monitor_tasks fuel env task_list st =
     (let st = tq_write (LTotalTasks (length task_list)) st;
          active_tasks = map (\<lambda>task. (task_description env task, task)) task_list
      in case monitor_loop fuel env 0 active_tasks 0 st of
           None \<Rightarrow> None
         | Some (task_error_count, st) \<Rightarrow> Some (tq_write (LAllCompleted task_error_count) st))"

subsection \<open>The run after discovery (main, lines 341--634)\<close>

definition run_downloads ::
  "nat \<Rightarrow> env \<Rightarrow> config \<Rightarrow> aoi list \<Rightarrow> scene list \<Rightarrow> state \<Rightarrow> state option" where
  "run_downloads fuel env cfg aois_data aois_images st =
     (let st = st\<lparr>tasks := []\<rparr>;
          st = image_loop env cfg aois_data 0 (groupby aois_images) st;
          st = water_loop env cfg aois_data st
      in monitor_tasks fuel env (tasks st) st)"

subsection \<open>Kinds of events\<close>

fun is_metric_computation :: "event \<Rightarrow> bool" where
  "is_metric_computation (EvValidPercentage n r) = True"
| "is_metric_computation (EvGetInfo ids r) = True"
| "is_metric_computation ev = False"

fun metric_failure :: "event \<Rightarrow> py_exception option" where
  \<comment> \<open>the exception, when the event is a metric computation that raised\<close>
  "metric_failure (EvValidPercentage n (Inl e)) = Some e"
| "metric_failure (EvGetInfo ids (Inl e)) = Some e"
| "metric_failure ev = None"

fun is_export :: "event \<Rightarrow> bool" where
  "is_export (EvExport spec r) = True"
| "is_export ev = False"

fun is_ledger_write :: "event \<Rightarrow> bool" where
  "is_ledger_write (EvUpsert d row r) = True"
| "is_ledger_write (EvUpdateStatus d s) = True"
| "is_ledger_write ev = False"

subsection \<open>Notions used to state the properties\<close>

text \<open>
  \<open>quiet\<close> events hold no export call, no ledger write and no failed metric
  computation. \<open>gate_logged pre row\<close> says that the metrics of \<open>row\<close> are those
  the threshold lines in \<open>pre\<close> show. \<open>unit_head\<close> is what every turn of the image
  loop starts with, \<open>handler_events\<close> what the handler of line 542 adds.
\<close>

definition quiet :: "event list \<Rightarrow> bool" where
  "quiet pre = (\<forall>ev \<in> set pre. \<not> is_export ev \<and> \<not> is_ledger_write ev \<and> metric_failure ev = None)"

definition gate_logged :: "event list \<Rightarrow> image_download \<Rightarrow> bool" where
  "gate_logged pre row =
     (\<exists>v tv c tc. EvLog (LValidPixels v tv) \<in> set pre \<and> EvLog (LCloudPixels (c / 100) tc) \<in> set pre
        \<and> row_valids row = Some v \<and> row_cloud_probability row = Some c)"

definition unit_head :: "nat \<Rightarrow> unit_key \<Rightarrow> py_exception + bool \<Rightarrow> event list" where
  "unit_head i key ans =
     (case key of (name, solar_day, sat, tag) \<Rightarrow>
        [EvLog (LProcessing i key),
         EvLog (LFileNamePrefix (path_join rel_grid_path [name, constellation_of sat, solar_day])),
         EvIsTaskRunning (desc_of key) ans])"

definition handler_events :: "nat \<Rightarrow> unit_key \<Rightarrow> py_exception option \<Rightarrow> event list" where
  "handler_events i key r =
     (case r of None \<Rightarrow> [] | Some e \<Rightarrow> [EvWarn i key, EvLog (LTraceback e)])"

text \<open>
  \<open>exports_of d\<close> keeps the export calls that returned a task under the
  description \<open>d\<close>. A platform \<open>reports_submitted\<close> when its query for active
  tasks answers yes for a description under which the trace already holds such a
  call: the jobs of the run are still active while the image loop goes on.
\<close>

fun is_job_for :: "string \<Rightarrow> event \<Rightarrow> bool" where
  "is_job_for d (EvExport spec (Inr t)) = (es_description spec = d)"
| "is_job_for d ev = False"

definition exports_of :: "string \<Rightarrow> event list \<Rightarrow> event list" where
  "exports_of d evs = filter (is_job_for d) evs"


subsection \<open>Sample inputs\<close>

text \<open>
  One grid patch, one Sentinel-2 scene of the flood period, the default
  thresholds of the command line, and a platform on which nothing fails.
\<close>

definition sample_env :: env where
  "sample_env =
     \<lparr>istaskrunning = (\<lambda>h d. Inr False),
      run_query_raises = (\<lambda>h. None),
      valid_percentage = (\<lambda>g gs. Inr (95 / 100)),
      get_channel_configuration_bands = (\<lambda>c k. [''B2'', ''B3'', ''B4'', ''B8'', ''B11'', ''B12'']),
      getInfo = (\<lambda>h c ids. Inr \<lparr>cloud_probability = 20, valids = 95 / 100\<rparr>),
      convert_wgs_to_utm = (\<lambda>g. ''EPSG:32755''),
      toCloudStorage_start = (\<lambda>h spec. Inr 7),
      download_permanent_water = (\<lambda>h n f c. Inr (Some 8)),
      task_active = (\<lambda>p t. p < 2),
      task_state = (\<lambda>p t. ''COMPLETED''),
      task_description =
        (\<lambda>t. if t = 8 then ''G1_PERMANENTWATERJRC_2022'' else ''G1_S2_2022-03-01'')\<rparr>"

definition sample_cfg :: config where
  "sample_cfg =
     \<lparr>cfg_thresholds =
        \<lparr>threshold_clouds_flood = 95 / 100, threshold_clouds_ref = 1 / 10,
         threshold_invalids_flood = 7 / 10, threshold_invalids_ref = 1 / 10\<rparr>,
      bucket_uri = ''gs://floodmapper-demo'',
      channel_configuration = ''bgriswirs'',
      flood_start_year = ''2022''\<rparr>"

definition sample_aoi :: aoi where
  "sample_aoi = \<lparr>aoi_patch_name = ''G1'', aoi_geometry = ''POLYGON G1''\<rparr>"

definition sample_scene :: scene where
  "sample_scene =
     \<lparr>patch_name = ''G1'', solarday = ''2022-03-01'', satellite = ''S2A'', mode = ''flood'',
      gee_id = ''20220301T001'', collection_name = ''COPERNICUS/S2_HARMONIZED'',
      s2cloudless = True, utcdatetime = 10, solardatetime = 20, geometry = ''POLYGON S''\<rparr>"

definition sample_key :: unit_key where
  "sample_key = (''G1'', ''2022-03-01'', ''S2A'', ''flood'')"

definition empty_state :: state where
  "empty_state = \<lparr>ledger = Map.empty, tasks = [], trace = []\<rparr>"

definition done_row :: image_download where
  "done_row =
     \<lparr>row_patch_name = Some ''G1'', row_satellite = Some ''S2'',
      row_date = Some ''2022-03-01'', row_datetime = Some 10,
      row_solarday = Some ''2022-03-01'', row_solardatetime = Some 20,
      row_cloud_probability = Some 20, row_valids = Some (95 / 100),
      row_status = 1, row_data_path = None\<rparr>"

definition done_state :: state where
  "done_state = \<lparr>ledger = [''G1_S2_2022-03-01'' \<mapsto> done_row], tasks = [], trace = []\<rparr>"

definition sample_spec :: export_spec where
  "sample_spec =
     \<lparr>es_image_ids = [''COPERNICUS/S2_HARMONIZED/20220301T001''],
      es_bands = [''B2'', ''B3'', ''B4'', ''B8'', ''B11'', ''B12'', ''probability''],
      es_fileNamePrefix = ''0_DEV/1_Staging/GRID/G1/S2/2022-03-01'',
      es_description = ''G1_S2_2022-03-01'', es_crs = ''EPSG:32755'',
      es_bucket = ''floodmapper-demo'', es_scale = 10\<rparr>"


definition tracking_env :: env where
  "tracking_env = sample_env\<lparr>istaskrunning := (\<lambda>h d. Inr (exports_of d h \<noteq> []))\<rparr>"

definition twin_key :: unit_key where
  "twin_key = (''G1'', ''2022-03-01'', ''S2B'', ''flood'')"

definition failing_env :: env where
  "failing_env = sample_env\<lparr>getInfo := (\<lambda>h c ids. Inl (RaisedError ''EEException''))\<rparr>"

subsection \<open>The monitor, pass by pass\<close>







section \<open>Properties\<close>

subsection \<open>The quality gate\<close>


text \<open>
  C8. For fixed thresholds and a fixed tag the decision is monotonic: a unit that
  passes still passes when its valid-pixel fraction grows and its cloud fraction
  shrinks.
\<close>

theorem quality_gate_monotonic:
  assumes "valids i2 \<ge> valids i1"
    and "cloud_probability i2 / 100 \<le> cloud_probability i1 / 100"
    and "fst (quality_gate th tag i1)"
  shows "fst (quality_gate th tag i2)"
  using assms
  by (auto simp: quality_gate_def thresh_valid_def thresh_cloud_def Let_def
           split: if_splits)

theorem quality_gate_monotonic_witness:
  "fst (quality_gate \<lparr>threshold_clouds_flood = 95/100, threshold_clouds_ref = 1/10,
                      threshold_invalids_flood = 7/10, threshold_invalids_ref = 1/10\<rparr>
         ''flood'' \<lparr>cloud_probability = 40, valids = 1/2\<rparr>)
   \<and> fst (quality_gate \<lparr>threshold_clouds_flood = 95/100, threshold_clouds_ref = 1/10,
                      threshold_invalids_flood = 7/10, threshold_invalids_ref = 1/10\<rparr>
         ''flood'' \<lparr>cloud_probability = 20, valids = 95/100\<rparr>)"
proof -
  let ?th = "\<lparr>threshold_clouds_flood = 95/100, threshold_clouds_ref = 1/10,
              threshold_invalids_flood = 7/10, threshold_invalids_ref = 1/10\<rparr>"
  let ?i1 = "\<lparr>cloud_probability = 40, valids = 1/2\<rparr>"
  let ?i2 = "\<lparr>cloud_probability = 20, valids = 95/100\<rparr>"
  have a: "valids ?i2 \<ge> valids ?i1" by simp
  have b: "cloud_probability ?i2 / 100 \<le> cloud_probability ?i1 / 100" by simp
  have c: "fst (quality_gate ?th ''flood'' ?i1)"
    by (simp add: quality_gate_def thresh_valid_def thresh_cloud_def Let_def)
  from quality_gate_monotonic [OF a b c] c show ?thesis by simp
qed

subsection \<open>Duplicate grid patches\<close>

lemma filter_index_Cons:
  "map (\<lambda>i. (r # rs) ! i) (filter P [0..<length (r # rs)]) =
     (if P 0 then [r] else []) @ map (\<lambda>i. rs ! i) (filter (\<lambda>i. P (Suc i)) [0..<length rs])"
proof -
  have "[0..<length (r # rs)] = 0 # map Suc [0..<length rs]"
    by (simp add: upt_conv_Cons map_Suc_upt del: upt_Suc)
  then show ?thesis
    by (simp add: filter_map o_def)
qed

lemma drop_duplicates_seen_index:
  "drop_duplicates_seen seen rows =
     map (\<lambda>i. rows ! i) (filter (fresh seen rows) [0..<length rows])"
proof (induction rows arbitrary: seen)
  case Nil
  then show ?case by simp
next
  case (Cons r rs)
  show ?case
  proof (cases "aoi_patch_name r \<in> set seen")
    case True
    then have "filter (\<lambda>i. fresh seen (r # rs) (Suc i)) [0..<length rs] =
               filter (fresh seen rs) [0..<length rs]"
      by (intro filter_cong) (auto simp: fresh_def)
    moreover have "\<not> fresh seen (r # rs) 0"
      using True by (simp add: fresh_def)
    ultimately show ?thesis
      using True Cons.IH [of seen]
      by (simp only: filter_index_Cons drop_duplicates_seen.simps if_True if_False append_Nil)
  next
    case False
    then have "filter (\<lambda>i. fresh seen (r # rs) (Suc i)) [0..<length rs] =
               filter (fresh (aoi_patch_name r # seen) rs) [0..<length rs]"
      by (intro filter_cong) (auto simp: fresh_def)
    moreover have "fresh seen (r # rs) 0"
      using False by (simp add: fresh_def)
    ultimately show ?thesis
      using False Cons.IH [of "aoi_patch_name r # seen"]
      by (simp only: filter_index_Cons drop_duplicates_seen.simps if_True if_False
            append_Cons append_Nil)
  qed
qed

lemma drop_duplicates_first:
  "drop_duplicates rows = map (\<lambda>i. rows ! i) (first_occurrences rows)"
proof -
  have "fresh [] rows =
        (\<lambda>i. aoi_patch_name (rows ! i) \<notin> set (map aoi_patch_name (take i rows)))"
    by (rule ext) (simp add: fresh_def)
  then show ?thesis
    by (simp add: drop_duplicates_def first_occurrences_def drop_duplicates_seen_index)
qed

lemma occurrences_length:
  "length (first_occurrences rows) + length (later_occurrences rows) = length rows"
  unfolding first_occurrences_def later_occurrences_def
  using sum_length_filter_compl
    [of "\<lambda>i. aoi_patch_name (rows ! i) \<notin> set (map aoi_patch_name (take i rows))"
        "[0..<length rows]"]
  by simp

lemma drop_duplicates_seen_names:
  "distinct (map aoi_patch_name (drop_duplicates_seen seen rows)) \<and>
   set (map aoi_patch_name (drop_duplicates_seen seen rows)) =
     set (map aoi_patch_name rows) - set seen"
  by (induction rows arbitrary: seen) auto

text \<open>
  C6. Dropping the duplicates keeps, in the order of the table, exactly the rows
  whose name stands in no earlier row: the result is the table read at its
  first occurrences, no name is left twice, and the number of rows dropped is
  the number of later occurrences. So a table of five rows, two of which repeat
  a name met before, leaves three grid patches.
\<close>

theorem drop_duplicates_keeps_first:
  "drop_duplicates rows = map (\<lambda>i. rows ! i) (first_occurrences rows)
   \<and> distinct (map aoi_patch_name (drop_duplicates rows))
   \<and> length (drop_duplicates rows) + length (later_occurrences rows) = length rows
   \<and> (length rows = 5 \<and> length (later_occurrences rows) = 2
        \<longrightarrow> length (drop_duplicates rows) = 3)"
proof -
  have a: "drop_duplicates rows = map (\<lambda>i. rows ! i) (first_occurrences rows)"
    by (rule drop_duplicates_first)
  have b: "distinct (map aoi_patch_name (drop_duplicates rows))"
    using drop_duplicates_seen_names [of "[]" rows] by (simp add: drop_duplicates_def)
  have c: "length (drop_duplicates rows) + length (later_occurrences rows) = length rows"
    using occurrences_length [of rows] by (simp add: a)
  from a b c show ?thesis by auto
qed

theorem drop_duplicates_keeps_first_witness:
  "length [\<lparr>aoi_patch_name = ''a'', aoi_geometry = ''g1''\<rparr>,
           \<lparr>aoi_patch_name = ''b'', aoi_geometry = ''g2''\<rparr>,
           \<lparr>aoi_patch_name = ''a'', aoi_geometry = ''g3''\<rparr>,
           \<lparr>aoi_patch_name = ''c'', aoi_geometry = ''g4''\<rparr>,
           \<lparr>aoi_patch_name = ''b'', aoi_geometry = ''g5''\<rparr>] = 5
   \<and> length (later_occurrences
          [\<lparr>aoi_patch_name = ''a'', aoi_geometry = ''g1''\<rparr>,
           \<lparr>aoi_patch_name = ''b'', aoi_geometry = ''g2''\<rparr>,
           \<lparr>aoi_patch_name = ''a'', aoi_geometry = ''g3''\<rparr>,
           \<lparr>aoi_patch_name = ''c'', aoi_geometry = ''g4''\<rparr>,
           \<lparr>aoi_patch_name = ''b'', aoi_geometry = ''g5''\<rparr>]) = 2
   \<and> length (drop_duplicates
          [\<lparr>aoi_patch_name = ''a'', aoi_geometry = ''g1''\<rparr>,
           \<lparr>aoi_patch_name = ''b'', aoi_geometry = ''g2''\<rparr>,
           \<lparr>aoi_patch_name = ''a'', aoi_geometry = ''g3''\<rparr>,
           \<lparr>aoi_patch_name = ''c'', aoi_geometry = ''g4''\<rparr>,
           \<lparr>aoi_patch_name = ''b'', aoi_geometry = ''g5''\<rparr>]) = 3"
proof -
  let ?T = "[\<lparr>aoi_patch_name = ''a'', aoi_geometry = ''g1''\<rparr>,
           \<lparr>aoi_patch_name = ''b'', aoi_geometry = ''g2''\<rparr>,
           \<lparr>aoi_patch_name = ''a'', aoi_geometry = ''g3''\<rparr>,
           \<lparr>aoi_patch_name = ''c'', aoi_geometry = ''g4''\<rparr>,
           \<lparr>aoi_patch_name = ''b'', aoi_geometry = ''g5''\<rparr>]"
  have h1: "length ?T = 5" by simp
  have h2: "length (later_occurrences ?T) = 2"
    by (simp add: later_occurrences_def upt_rec)
  from drop_duplicates_keeps_first [of ?T] h1 h2
  have "length (drop_duplicates ?T) = 3" by blast
  with h1 h2 show ?thesis by blast
qed

subsection \<open>Groups of scenes\<close>

lemma groupby_member:
  "(k, g) \<in> set (groupby rows) \<longleftrightarrow>
     k \<in> set (map key_of rows) \<and> g = filter (\<lambda>r. key_of r = k) rows"
  by (auto simp: groupby_def)

lemma concat_groups_mset:
  "distinct ks \<Longrightarrow>
   mset (concat (map (\<lambda>k. filter (\<lambda>r. key_of r = k) rows) ks)) =
   mset (filter (\<lambda>r. key_of r \<in> set ks) rows)"
proof (induction ks)
  case Nil
  then show ?case by simp
next
  case (Cons k ks)
  have "mset (filter (\<lambda>r. key_of r = k) rows) + mset (filter (\<lambda>r. key_of r \<in> set ks) rows)
       = mset (filter (\<lambda>r. key_of r \<in> set (k # ks)) rows)"
    using Cons.prems by (induction rows) auto
  with Cons show ?case by simp
qed

lemma groupby_mset: "mset (concat (map snd (groupby rows))) = mset rows"
proof -
  have "mset (concat (map snd (groupby rows)))
        = mset (filter (\<lambda>r. key_of r \<in> set (sort (remdups (map key_of rows)))) rows)"
    using concat_groups_mset [of "sort (remdups (map key_of rows))" rows]
    by (simp add: groupby_def o_def)
  also have "\<dots> = mset rows"
    by simp
  finally show ?thesis .
qed

text \<open>
  C7. The groups partition the table by the key (patch name, solar day,
  satellite, tag): together they hold every scene of the table once, no key
  heads two groups, two scenes with the same key never sit in different
  groups, and the scenes of one group all carry the group's key, so never the
  names of two grid patches.
\<close>

theorem groupby_partitions:
  "mset (concat (map snd (groupby rows))) = mset rows
   \<and> distinct (map fst (groupby rows))
   \<and> (\<forall>u1 \<in> set (groupby rows). \<forall>u2 \<in> set (groupby rows).
        \<forall>r1 \<in> set (snd u1). \<forall>r2 \<in> set (snd u2).
          (key_of r1 = key_of r2 \<longrightarrow> u1 = u2)
          \<and> (u1 = u2 \<longrightarrow> key_of r1 = fst u1 \<and> patch_name r1 = patch_name r2))"
proof -
  have a: "distinct (map fst (groupby rows))"
    by (simp add: groupby_def o_def)
  have b: "key_of r = k \<and> g = filter (\<lambda>r. key_of r = k) rows"
    if "(k, g) \<in> set (groupby rows)" "r \<in> set g" for k g r
    using that by (auto simp: groupby_member)
  have c: "(key_of r1 = key_of r2 \<longrightarrow> u1 = u2)
           \<and> (u1 = u2 \<longrightarrow> key_of r1 = fst u1 \<and> patch_name r1 = patch_name r2)"
    if "u1 \<in> set (groupby rows)" "u2 \<in> set (groupby rows)"
       "r1 \<in> set (snd u1)" "r2 \<in> set (snd u2)" for u1 u2 r1 r2
  proof -
    obtain k1 g1 k2 g2 where u: "u1 = (k1, g1)" "u2 = (k2, g2)"
      by (cases u1, cases u2) auto
    from b [of k1 g1 r1] b [of k2 g2 r2] that u
    have k: "key_of r1 = k1" "key_of r2 = k2"
      and g: "g1 = filter (\<lambda>r. key_of r = k1) rows" "g2 = filter (\<lambda>r. key_of r = k2) rows"
      by auto
    show ?thesis
    proof (intro conjI impI)
      assume "key_of r1 = key_of r2"
      with k g u show "u1 = u2" by simp
    next
      assume "u1 = u2"
      with k u show "key_of r1 = fst u1" by simp
    next
      assume "u1 = u2"
      with k u have "key_of r1 = key_of r2" by simp
      then show "patch_name r1 = patch_name r2" by (simp add: key_of_def)
    qed
  qed
  from groupby_mset [of rows] a c show ?thesis by blast
qed

theorem groupby_partitions_witness:
  "((''G1'', ''2022-03-01'', ''S2A'', ''flood''),
     [\<lparr>patch_name = ''G1'', solarday = ''2022-03-01'', satellite = ''S2A'', mode = ''flood'',
       gee_id = ''T55'', collection_name = ''COPERNICUS/S2'', s2cloudless = True,
       utcdatetime = 10, solardatetime = 20, geometry = ''p1''\<rparr>,
      \<lparr>patch_name = ''G1'', solarday = ''2022-03-01'', satellite = ''S2A'', mode = ''flood'',
       gee_id = ''T56'', collection_name = ''COPERNICUS/S2'', s2cloudless = True,
       utcdatetime = 11, solardatetime = 21, geometry = ''p2''\<rparr>])
    \<in> set (groupby
        [\<lparr>patch_name = ''G1'', solarday = ''2022-03-01'', satellite = ''S2A'', mode = ''flood'',
          gee_id = ''T55'', collection_name = ''COPERNICUS/S2'', s2cloudless = True,
          utcdatetime = 10, solardatetime = 20, geometry = ''p1''\<rparr>,
         \<lparr>patch_name = ''G0'', solarday = ''2022-03-01'', satellite = ''S2A'', mode = ''flood'',
          gee_id = ''T55'', collection_name = ''COPERNICUS/S2'', s2cloudless = True,
          utcdatetime = 10, solardatetime = 20, geometry = ''p1''\<rparr>,
         \<lparr>patch_name = ''G1'', solarday = ''2022-03-01'', satellite = ''S2A'', mode = ''flood'',
          gee_id = ''T56'', collection_name = ''COPERNICUS/S2'', s2cloudless = True,
          utcdatetime = 11, solardatetime = 21, geometry = ''p2''\<rparr>])
   \<and> length (groupby
        [\<lparr>patch_name = ''G1'', solarday = ''2022-03-01'', satellite = ''S2A'', mode = ''flood'',
          gee_id = ''T55'', collection_name = ''COPERNICUS/S2'', s2cloudless = True,
          utcdatetime = 10, solardatetime = 20, geometry = ''p1''\<rparr>,
         \<lparr>patch_name = ''G0'', solarday = ''2022-03-01'', satellite = ''S2A'', mode = ''flood'',
          gee_id = ''T55'', collection_name = ''COPERNICUS/S2'', s2cloudless = True,
          utcdatetime = 10, solardatetime = 20, geometry = ''p1''\<rparr>,
         \<lparr>patch_name = ''G1'', solarday = ''2022-03-01'', satellite = ''S2A'', mode = ''flood'',
          gee_id = ''T56'', collection_name = ''COPERNICUS/S2'', s2cloudless = True,
          utcdatetime = 11, solardatetime = 21, geometry = ''p2''\<rparr>]) = 2
   \<and> key_of \<lparr>patch_name = ''G1'', solarday = ''2022-03-01'', satellite = ''S2A'',
        mode = ''flood'', gee_id = ''T55'', collection_name = ''COPERNICUS/S2'',
        s2cloudless = True, utcdatetime = 10, solardatetime = 20, geometry = ''p1''\<rparr>
       = (''G1'', ''2022-03-01'', ''S2A'', ''flood'')"
proof -
  let ?s1 = "\<lparr>patch_name = ''G1'', solarday = ''2022-03-01'', satellite = ''S2A'', mode = ''flood'',
          gee_id = ''T55'', collection_name = ''COPERNICUS/S2'', s2cloudless = True,
          utcdatetime = 10, solardatetime = 20, geometry = ''p1''\<rparr>"
  let ?s0 = "\<lparr>patch_name = ''G0'', solarday = ''2022-03-01'', satellite = ''S2A'', mode = ''flood'',
          gee_id = ''T55'', collection_name = ''COPERNICUS/S2'', s2cloudless = True,
          utcdatetime = 10, solardatetime = 20, geometry = ''p1''\<rparr>"
  let ?s2 = "\<lparr>patch_name = ''G1'', solarday = ''2022-03-01'', satellite = ''S2A'', mode = ''flood'',
          gee_id = ''T56'', collection_name = ''COPERNICUS/S2'', s2cloudless = True,
          utcdatetime = 11, solardatetime = 21, geometry = ''p2''\<rparr>"
  let ?u = "((''G1'', ''2022-03-01'', ''S2A'', ''flood''), [?s1, ?s2])"
  have g: "groupby [?s1, ?s0, ?s2] =
      [((''G0'', ''2022-03-01'', ''S2A'', ''flood''), [?s0]), ?u]"
    by (simp add: groupby_def key_of_def)
  have u: "?u \<in> set (groupby [?s1, ?s0, ?s2])"
    by (simp only: g) simp
  have r: "?s1 \<in> set (snd ?u)" by simp
  from groupby_partitions [of "[?s1, ?s0, ?s2]"] u r
  have "key_of ?s1 = fst ?u" by blast
  then have "key_of ?s1 = (''G1'', ''2022-03-01'', ''S2A'', ''flood'')" by simp
  moreover have "length (groupby [?s1, ?s0, ?s2]) = 2" by (simp only: g) simp
  ultimately show ?thesis using u by blast
qed

subsection \<open>Dates in the future\<close>

text \<open>
  C9. A flood start date after the current time ends the run with the script's
  message, and so does a reference start date after the current time when both
  reference dates are given and the flood start date is not in the future. An
  end date after the current time writes the warning line and, wherever the run
  goes on, the period ends at the current time. The run goes on exactly when no
  start date that is checked lies in the future: an end date in the future
  never stops it.
\<close>

theorem set_periods_future_dates:
  "(fs > today \<longrightarrow>
      snd (set_periods today fs fe rs re) = Inl ''[ERR] Flood start date set to future time!'')
   \<and> (fs \<le> today \<and> rs = Some s \<and> re = Some e \<and> s > today \<longrightarrow>
      snd (set_periods today fs fe rs re) = Inl ''[ERR] Ref start date set to future time!'')
   \<and> (fe > today \<longrightarrow>
      LWarnFloodEnd \<in> set (fst (set_periods today fs fe rs re))
      \<and> (\<forall>p. snd (set_periods today fs fe rs re) = Inr p \<longrightarrow> period_flood_end p = today))
   \<and> (fs \<le> today \<and> rs = Some s \<and> re = Some e \<and> e > today \<longrightarrow>
      LWarnRefEnd \<in> set (fst (set_periods today fs fe rs re))
      \<and> (\<forall>p. snd (set_periods today fs fe rs re) = Inr p \<longrightarrow> period_ref p = Some (s, today)))
   \<and> ((\<exists>p. snd (set_periods today fs fe rs re) = Inr p) \<longleftrightarrow>
        fs \<le> today \<and> (\<forall>s' e'. rs = Some s' \<and> re = Some e' \<longrightarrow> s' \<le> today))"
  by (cases rs; cases re) (auto simp: set_periods_def Let_def split: if_splits)

theorem set_periods_future_dates_witness:
  "snd (set_periods 100 150 200 None None) = Inl ''[ERR] Flood start date set to future time!''
   \<and> snd (set_periods 100 50 200 (Some 110) (Some 300)) =
       Inl ''[ERR] Ref start date set to future time!''
   \<and> LWarnFloodEnd \<in> set (fst (set_periods 100 50 200 (Some 10) (Some 300)))
   \<and> LWarnRefEnd \<in> set (fst (set_periods 100 50 200 (Some 10) (Some 300)))
   \<and> set_periods 100 50 200 (Some 10) (Some 300) =
       ([LWarnFloodEnd, LFloodDuration 50, LWarnRefEnd, LRefDuration 90],
        Inr \<lparr>period_flood_start = 50, period_flood_end = 100, period_ref = Some (10, 100)\<rparr>)"
proof -
  have a: "snd (set_periods 100 150 200 None None) =
      Inl ''[ERR] Flood start date set to future time!''"
    using set_periods_future_dates [where today = 100 and fs = 150 and fe = 200
        and rs = None and re = None] by simp
  have b: "snd (set_periods 100 50 200 (Some 110) (Some 300)) =
      Inl ''[ERR] Ref start date set to future time!''"
    using set_periods_future_dates [where today = 100 and fs = 50 and fe = 200
        and rs = "Some 110" and re = "Some 300" and s = 110 and e = 300] by simp
  have c: "LWarnFloodEnd \<in> set (fst (set_periods 100 50 200 (Some 10) (Some 300)))"
    using set_periods_future_dates [where today = 100 and fs = 50 and fe = 200
        and rs = "Some 10" and re = "Some 300"] by simp
  have d: "LWarnRefEnd \<in> set (fst (set_periods 100 50 200 (Some 10) (Some 300)))"
    using set_periods_future_dates [where today = 100 and fs = 50 and fe = 200
        and rs = "Some 10" and re = "Some 300" and s = 10 and e = 300] by simp
  have e: "set_periods 100 50 200 (Some 10) (Some 300) =
       ([LWarnFloodEnd, LFloodDuration 50, LWarnRefEnd, LRefDuration 90],
        Inr \<lparr>period_flood_start = 50, period_flood_end = 100, period_ref = Some (10, 100)\<rparr>)"
    by (simp add: set_periods_def)
  from a b c d e show ?thesis by blast
qed

subsection \<open>One turn of the image loop, case by case\<close>

lemma compute_info_ee_outcome:
  assumes "compute_info_ee env cfg aois name c rows st = (r, s1)"
  shows "ledger s1 = ledger st \<and> tasks s1 = tasks st
         \<and> trace s1 = trace st @ new_events st s1
         \<and> (\<forall>ev \<in> set (new_events st s1). \<not> is_export ev \<and> \<not> is_ledger_write ev
                 \<and> (\<forall>e. metric_failure ev = Some e \<longrightarrow> r = Inl e))"
  using assms
  by (auto simp: compute_info_ee_def tq_write_def emit_def Let_def new_events_def
      split: option.splits sum.splits if_splits)

lemma download_execution_block_False:
  "download_execution_block env cfg False c f d ids ch pg st =
     (Inr 0, st\<lparr>trace := trace st @ [EvLog LWillNotDownload, EvLog (LNumTasks (length (tasks st)))]\<rparr>)"
  by (simp add: download_execution_block_def tq_write_def emit_def)

lemma download_execution_block_True:
  "download_execution_block env cfg True c f d ids ch pg st =
     (let spec = \<lparr>es_image_ids = ids, es_bands = ch, es_fileNamePrefix = f,
                   es_description = d, es_crs = convert_wgs_to_utm env pg,
                   es_bucket = bucket_name cfg,
                   es_scale = (if c = ''S2'' then 10 else 30)\<rparr>;
          r = toCloudStorage_start env (trace st @ [EvLog LSubmitting]) spec
      in case r of
           Inl e \<Rightarrow> (Inl e, st\<lparr>trace := trace st @ [EvLog LSubmitting, EvExport spec r]\<rparr>)
         | Inr t \<Rightarrow>
             (Inr (- 1),
              st\<lparr>tasks := tasks st @ [t],
                 trace := trace st @ [EvLog LSubmitting, EvExport spec r,
                                      EvLog (LNumTasks (Suc (length (tasks st))))]\<rparr>))"
  by (simp add: download_execution_block_def tq_write_def emit_def Let_def split: sum.splits)

lemma do_update_download_eq:
  "do_update_download env d n c sd u s cp v status dp st =
     (let data = \<lparr>row_patch_name = n, row_satellite = c, row_date = sd, row_datetime = u,
                  row_solarday = sd, row_solardatetime = s, row_cloud_probability = cp,
                  row_valids = v, row_status = status, row_data_path = dp\<rparr>;
          r = run_query_raises env (trace st)
      in (r, st\<lparr>trace := trace st @ [EvUpsert d data r],
                ledger := (case r of Some e \<Rightarrow> ledger st | None \<Rightarrow> upsert (ledger st) d data)\<rparr>))"
  by (simp add: do_update_download_def emit_def Let_def split: option.splits)

lemma quality_gate_lines:
  "LValidPixels (valids info) (thresh_valid th tag) \<in> set (snd (quality_gate th tag info))"
  "LCloudPixels (cloud_probability info / 100) (thresh_cloud th tag)
     \<in> set (snd (quality_gate th tag info))"
  by (simp_all add: quality_gate_def Let_def)

lemma quiet_append: "quiet (xs @ ys) = (quiet xs \<and> quiet ys)"
  by (auto simp: quiet_def)

lemma quiet_logs: "quiet (map EvLog ls)"
  by (auto simp: quiet_def)

lemma unit_process_cases [consumes 1, case_names metrics_failed export_raised submitted rejected]:
  assumes up: "unit_process env cfg aois key rows st = (res, st')"
  obtains
    (metrics_failed) e pre where
      "res = Some e" "ledger st' = ledger st" "tasks st' = tasks st"
      "trace st' = trace st @ pre"
      "\<forall>ev \<in> set pre. \<not> is_export ev \<and> \<not> is_ledger_write ev
          \<and> (\<forall>e'. metric_failure ev = Some e' \<longrightarrow> e' = e)"
  | (export_raised) e pre spec where
      "res = Some e" "ledger st' = ledger st" "tasks st' = tasks st"
      "trace st' = trace st @ pre @ [EvExport spec (Inl e)]"
      "es_description spec = desc_of key" "quiet pre"
  | (submitted) pre spec t row where
      "ledger st' = (case res of None \<Rightarrow> upsert (ledger st) (desc_of key) row | Some e \<Rightarrow> ledger st)"
      "tasks st' = tasks st @ [t]"
      "trace st' = trace st @ pre @ [EvExport spec (Inr t), EvLog (LNumTasks (length (tasks st'))),
          EvLog LUpdatingDatabase, EvUpsert (desc_of key) row res]"
      "es_description spec = desc_of key" "row_status row = - 1" "gate_logged pre row" "quiet pre"
  | (rejected) pre row where
      "ledger st' = (case res of None \<Rightarrow> upsert (ledger st) (desc_of key) row | Some e \<Rightarrow> ledger st)"
      "tasks st' = tasks st"
      "trace st' = trace st @ pre @ [EvUpsert (desc_of key) row res]"
      "row_status row = 0" "gate_logged pre row" "quiet pre"
proof -
  obtain name solar_day sat tag where key: "key = (name, solar_day, sat, tag)"
    by (cases key) auto
  obtain r1 s1 where c: "compute_info_ee env cfg aois name (constellation_of sat) rows st = (r1, s1)"
    by (cases "compute_info_ee env cfg aois name (constellation_of sat) rows st") auto
  note A = compute_info_ee_outcome [OF c]
  show thesis
  proof (cases r1)
    case (Inl e)
    with up c key have "res = Some e" "st' = s1"
      by (auto simp: unit_process_def Let_def)
    with A Inl show thesis
      by (intro metrics_failed [where e = e and pre = "new_events st s1"]) auto
  next
    case (Inr x)
    obtain info ids ch pg where x: "x = (info, ids, ch, pg)" by (cases x) auto
    from A Inr have q1: "quiet (new_events st s1)"
      by (auto simp: quiet_def)
    let ?g = "quality_gate (cfg_thresholds cfg) tag info"
    let ?d = "name @ ''_'' @ constellation_of sat @ ''_'' @ solar_day"
    have d: "desc_of key = ?d" by (simp add: key desc_of_def)
    let ?pre0 = "new_events st s1 @ map EvLog (snd ?g)"
    have lg: "EvLog (LValidPixels (valids info) (thresh_valid (cfg_thresholds cfg) tag)) \<in> set ?pre0"
         "EvLog (LCloudPixels (cloud_probability info / 100) (thresh_cloud (cfg_thresholds cfg) tag)) \<in> set ?pre0"
      using quality_gate_lines [of info "cfg_thresholds cfg" tag] by auto
    show thesis
    proof (cases "fst ?g")
      case False
      let ?pre = "?pre0 @ [EvLog LWillNotDownload, EvLog (LNumTasks (length (tasks st))), EvLog LUpdatingDatabase]"
      let ?row = "\<lparr>row_patch_name = Some name, row_satellite = Some (constellation_of sat),
          row_date = Some solar_day, row_datetime = Some (mean (map utcdatetime rows)),
          row_solarday = Some solar_day, row_solardatetime = Some (mean (map solardatetime rows)),
          row_cloud_probability = Some (cloud_probability info), row_valids = Some (valids info),
          row_status = 0,
          row_data_path = Some (path_join (bucket_uri cfg)
             [rel_grid_path, name, constellation_of sat, solar_day @ ''.tif''])\<rparr>"
      from up c key Inr x False A
      have r: "ledger st' = (case res of None \<Rightarrow> upsert (ledger st) ?d ?row | Some e \<Rightarrow> ledger st)"
        "tasks st' = tasks st"
        "trace st' = trace st @ ?pre @ [EvUpsert ?d ?row res]"
        by (auto simp: unit_process_def Let_def split_def download_execution_block_False
            do_update_download_eq tq_write_all_def tq_write_def emit_def split: option.splits)
      have gl: "gate_logged ?pre ?row"
        unfolding gate_logged_def using lg by (intro exI conjI) auto
      have qp: "quiet ?pre"
        using q1 by (simp add: quiet_append quiet_logs) (simp add: quiet_def)
      show thesis
        by (rule rejected [where pre = "?pre" and row = "?row"])
           (use r gl qp in \<open>simp_all add: d split: option.splits\<close>)
    next
      case True
      let ?spec = "\<lparr>es_image_ids = ids, es_bands = ch,
          es_fileNamePrefix = path_join rel_grid_path [name, constellation_of sat, solar_day],
          es_description = ?d, es_crs = convert_wgs_to_utm env pg,
          es_bucket = bucket_name cfg,
          es_scale = (if constellation_of sat = ''S2'' then 10 else 30)\<rparr>"
      let ?pre = "?pre0 @ [EvLog LSubmitting]"
      let ?r = "toCloudStorage_start env (trace st @ ?pre) ?spec"
      have qp: "quiet ?pre"
        using q1 by (simp add: quiet_append quiet_logs) (simp add: quiet_def)
      show thesis
      proof (cases ?r)
        case (Inl e)
        from up c key Inr x True A Inl
        have "res = Some e" "ledger st' = ledger st" "tasks st' = tasks st"
          "trace st' = trace st @ ?pre @ [EvExport ?spec (Inl e)]"
          by (auto simp: unit_process_def Let_def split_def download_execution_block_True
              tq_write_all_def)
        then show thesis
          using qp by (intro export_raised [where e = e and pre = "?pre" and spec = "?spec"])
            (simp_all add: d)
      next
        case (Inr t)
        let ?row = "\<lparr>row_patch_name = Some name, row_satellite = Some (constellation_of sat),
          row_date = Some solar_day, row_datetime = Some (mean (map utcdatetime rows)),
          row_solarday = Some solar_day, row_solardatetime = Some (mean (map solardatetime rows)),
          row_cloud_probability = Some (cloud_probability info), row_valids = Some (valids info),
          row_status = - 1,
          row_data_path = Some (path_join (bucket_uri cfg)
             [rel_grid_path, name, constellation_of sat, solar_day @ ''.tif''])\<rparr>"
        from up c key \<open>r1 = Inr x\<close> x True A Inr
        have r: "ledger st' = (case res of None \<Rightarrow> upsert (ledger st) ?d ?row | Some e \<Rightarrow> ledger st)"
          "tasks st' = tasks st @ [t]"
          "trace st' = trace st @ ?pre @ [EvExport ?spec (Inr t), EvLog (LNumTasks (length (tasks st'))),
              EvLog LUpdatingDatabase, EvUpsert ?d ?row res]"
          by (auto simp: unit_process_def Let_def split_def download_execution_block_True
              do_update_download_eq tq_write_all_def tq_write_def emit_def split: option.splits)
        have gl: "gate_logged ?pre ?row"
          unfolding gate_logged_def using lg by (intro exI conjI) auto
        show thesis
          by (rule submitted [where pre = "?pre" and row = "?row" and t = t and spec = "?spec"])
             (use r gl qp in \<open>simp_all add: d split: option.splits\<close>)
      qed
    qed
  qed
qed

lemma process_unit_cases
  [case_names running_raised already_running select_raised downloaded
     metrics_failed export_raised submitted rejected]:
  fixes env cfg aois i key rows st
  defines "st' \<equiv> process_unit env cfg aois i (key, rows) st"
  defines "d \<equiv> desc_of key"
  defines "H \<equiv> unit_head i key (Inr False) @ [EvLog LQueryingDatabase, EvSelect d (Inr (ledger st d))]"
  obtains
    (running_raised) e where
      "ledger st' = ledger st" "tasks st' = tasks st"
      "trace st' = trace st @ unit_head i key (Inl e) @ handler_events i key (Some e)"
  | (already_running)
      "ledger st' = ledger st" "tasks st' = tasks st"
      "trace st' = trace st @ unit_head i key (Inr True) @ [EvLog (LTaskAlreadyRunning d)]"
  | (select_raised) e where
      "ledger st' = ledger st" "tasks st' = tasks st"
      "trace st' = trace st @ unit_head i key (Inr False)
          @ [EvLog LQueryingDatabase, EvSelect d (Inl e)] @ handler_events i key (Some e)"
  | (downloaded) row where
      "ledger st d = Some row" "row_status row = 1"
      "ledger st' = ledger st" "tasks st' = tasks st"
      "trace st' = trace st @ H @ [EvLog LImageFound, EvLog LDownloaded, EvLog LSkippingExisting]"
  | (metrics_failed) e pre where
      "\<forall>row. ledger st d = Some row \<longrightarrow> row_status row \<noteq> 1"
      "ledger st' = ledger st" "tasks st' = tasks st"
      "trace st' = trace st @ H @ pre @ handler_events i key (Some e)"
      "\<forall>ev \<in> set pre. \<not> is_export ev \<and> \<not> is_ledger_write ev
          \<and> (\<forall>e'. metric_failure ev = Some e' \<longrightarrow> e' = e)"
  | (export_raised) e pre spec where
      "\<forall>row. ledger st d = Some row \<longrightarrow> row_status row \<noteq> 1"
      "ledger st' = ledger st" "tasks st' = tasks st"
      "trace st' = trace st @ H @ pre @ [EvExport spec (Inl e)] @ handler_events i key (Some e)"
      "es_description spec = d" "quiet pre"
  | (submitted) pre spec t row r where
      "\<forall>row. ledger st d = Some row \<longrightarrow> row_status row \<noteq> 1"
      "ledger st' = (case r of None \<Rightarrow> upsert (ledger st) d row | Some e \<Rightarrow> ledger st)"
      "tasks st' = tasks st @ [t]"
      "trace st' = trace st @ H @ pre @ [EvExport spec (Inr t), EvLog (LNumTasks (length (tasks st'))),
          EvLog LUpdatingDatabase, EvUpsert d row r] @ handler_events i key r"
      "es_description spec = d" "row_status row = - 1" "gate_logged pre row" "quiet pre"
  | (rejected) pre row r where
      "\<forall>row. ledger st d = Some row \<longrightarrow> row_status row \<noteq> 1"
      "ledger st' = (case r of None \<Rightarrow> upsert (ledger st) d row | Some e \<Rightarrow> ledger st)"
      "tasks st' = tasks st"
      "trace st' = trace st @ H @ pre @ [EvUpsert d row r] @ handler_events i key r"
      "row_status row = 0" "gate_logged pre row" "quiet pre"
proof -
  obtain name solar_day sat tag where key: "key = (name, solar_day, sat, tag)"
    by (cases key) auto
  let ?f = "path_join rel_grid_path [name, constellation_of sat, solar_day]"
  let ?dd = "name @ ''_'' @ constellation_of sat @ ''_'' @ solar_day"
  have dd: "d = ?dd" by (simp add: d_def key desc_of_def)
  let ?t0 = "trace st @ [EvLog (LProcessing i key), EvLog (LFileNamePrefix ?f)]"
  let ?a = "istaskrunning env ?t0 ?dd"
  note defs = process_unit_def unit_body_def call_istaskrunning_def run_select_def
    tq_write_def emit_def Let_def unit_head_def handler_events_def
  show thesis
  proof (cases ?a)
    case (Inl e)
    then show thesis
      by (intro running_raised [of e]) (simp_all add: st'_def defs key dd desc_of_def)
  next
    case (Inr b)
    show thesis
    proof (cases b)
      case True
      with Inr show thesis
        by (intro already_running) (simp_all add: st'_def defs key dd desc_of_def)
    next
      case False
      let ?t1 = "?t0 @ [EvIsTaskRunning ?dd (Inr False), EvLog LQueryingDatabase]"
      show thesis
      proof (cases "run_query_raises env ?t1")
        case (Some e)
        with Inr False show thesis
          by (intro select_raised [of e]) (simp_all add: st'_def defs key dd desc_of_def)
      next
        case None
        let ?found = "(case ledger st ?dd of None \<Rightarrow> [] | Some row \<Rightarrow> [EvLog LImageFound, EvLog LNotDownloaded])"
        let ?s1 = "st\<lparr>trace := trace st @ H @ ?found\<rparr>"
        show thesis
        proof (cases "\<exists>row. ledger st ?dd = Some row \<and> row_status row = 1")
          case True
          then obtain row where row: "ledger st ?dd = Some row" "row_status row = 1" by blast
          with Inr False None show thesis
            by (intro downloaded [of row])
              (simp_all add: st'_def defs key dd desc_of_def H_def)
        next
          case nd: False
          obtain res s2 where up: "unit_process env cfg aois key rows ?s1 = (res, s2)"
            by (cases "unit_process env cfg aois key rows ?s1") auto
          from Inr False None nd up
          have st': "ledger st' = ledger s2" "tasks st' = tasks s2"
            "trace st' = trace s2 @ handler_events i key res"
            by (auto simp: st'_def defs key dd desc_of_def H_def split: option.splits)
          have nd': "\<forall>row. ledger st d = Some row \<longrightarrow> row_status row \<noteq> 1"
            using nd by (simp add: dd)
          have q: "quiet ?found"
            by (auto simp: quiet_def split: option.splits)
          from up show thesis
          proof (cases rule: unit_process_cases)
            case (metrics_failed e pre)
            show thesis
              by (rule that(5) [where e = e and pre = "?found @ pre"])
                (use metrics_failed st' nd' q in \<open>auto simp: dd quiet_def\<close>)
          next
            case (export_raised e pre spec)
            show thesis
              by (rule that(6) [where e = e and pre = "?found @ pre" and spec = spec])
                (use export_raised st' nd' q in \<open>simp_all add: dd key desc_of_def quiet_append\<close>)
          next
            case (submitted pre spec t row)
            have "gate_logged (?found @ pre) row"
              using submitted(6) by (auto simp: gate_logged_def)
            then show thesis
              by (intro that(7) [where pre = "?found @ pre" and spec = spec and t = t
                    and row = row and r = res])
                (use submitted st' nd' q in
                  \<open>simp_all add: dd key desc_of_def quiet_append split: option.splits\<close>)
          next
            case (rejected pre row)
            have "gate_logged (?found @ pre) row"
              using rejected(5) by (auto simp: gate_logged_def)
            then show thesis
              by (intro that(8) [where pre = "?found @ pre" and row = row and r = res])
                (use rejected st' nd' q in
                  \<open>simp_all add: dd key desc_of_def quiet_append split: option.splits\<close>)
          qed
        qed
      qed
    qed
  qed
qed

lemma new_events_append: "trace st' = trace st @ evs \<Longrightarrow> new_events st st' = evs"
  by (simp add: new_events_def)

lemma unit_head_quiet:
  "\<forall>ev \<in> set (unit_head i key ans). \<not> is_metric_computation ev \<and> \<not> is_export ev
      \<and> \<not> is_ledger_write ev \<and> metric_failure ev = None"
  by (cases key) (simp add: unit_head_def)

lemma handler_events_quiet:
  "\<forall>ev \<in> set (handler_events i key r). \<not> is_metric_computation ev \<and> \<not> is_export ev
      \<and> \<not> is_ledger_write ev \<and> metric_failure ev = None"
  by (cases r) (simp_all add: handler_events_def)


lemma unit_head_title: "\<exists>evs. unit_head i key ans = EvLog (LProcessing i key) # evs"
  by (cases key) (simp add: unit_head_def)

lemma process_unit_trace:
  "\<exists>evs. trace (process_unit env cfg aois i (key, rows) st) =
      trace st @ EvLog (LProcessing i key) # evs"
proof -
  obtain h where h: "\<And>ans. unit_head i key ans = EvLog (LProcessing i key) # h ans"
    using unit_head_title [of i key] by metis
  show ?thesis
    by (cases rule: process_unit_cases [of env cfg aois i key rows st]) (simp_all add: h)
qed

lemma image_loop_trace:
  "\<exists>evs. trace (image_loop env cfg aois i grps st) = trace st @ evs"
proof (induction grps arbitrary: i st)
  case Nil
  then show ?case by simp
next
  case (Cons grp grps)
  obtain key rows where grp: "grp = (key, rows)" by (cases grp) auto
  from process_unit_trace [of env cfg aois i key rows st]
  obtain e1 where e1: "trace (process_unit env cfg aois i grp st) = trace st @ e1"
    unfolding grp by blast
  from Cons.IH [of "Suc i" "process_unit env cfg aois i grp st"]
  obtain e2 where "trace (image_loop env cfg aois (Suc i) grps (process_unit env cfg aois i grp st))
      = trace (process_unit env cfg aois i grp st) @ e2" by blast
  with e1 show ?case by simp
qed

lemma image_loop_titles:
  "j < length grps \<Longrightarrow>
   EvLog (LProcessing (i + j) (fst (grps ! j))) \<in> set (trace (image_loop env cfg aois i grps st))"
proof (induction grps arbitrary: i j st)
  case Nil
  then show ?case by simp
next
  case (Cons grp grps)
  obtain key rows where grp: "grp = (key, rows)" by (cases grp) auto
  let ?s = "process_unit env cfg aois i grp st"
  show ?case
  proof (cases j)
    case 0
    from process_unit_trace [of env cfg aois i key rows st]
    have "EvLog (LProcessing i key) \<in> set (trace ?s)"
      unfolding grp by auto
    moreover from image_loop_trace [of env cfg aois "Suc i" grps ?s]
    have "set (trace ?s) \<subseteq> set (trace (image_loop env cfg aois (Suc i) grps ?s))"
      by auto
    ultimately show ?thesis using 0 by (auto simp: grp)
  next
    case (Suc j')
    with Cons.prems have "j' < length grps" by simp
    from Cons.IH [OF this, of "Suc i" ?s] Suc show ?thesis by simp
  qed
qed

subsection \<open>The sample run\<close>

lemmas unit_defs = process_unit_def unit_body_def unit_process_def compute_info_ee_def
  download_execution_block_def do_update_download_def call_istaskrunning_def run_select_def
  tq_write_def tq_write_all_def emit_def new_events_def Let_def

lemmas sample_defs = sample_env_def sample_cfg_def sample_aoi_def sample_scene_def
  sample_key_def empty_state_def done_row_def done_state_def sample_spec_def

lemmas string_defs = desc_of_def constellation_of_def startswith_def endswith_def
  path_join_def path_join2_def rel_grid_path_def fix_landsat_gee_id_def bucket_name_def
  mean_def


subsection \<open>Units already downloaded\<close>

lemma process_unit_downloaded:
  assumes "ledger st (desc_of key) = Some r" "row_status r = 1"
  shows "ledger (process_unit env cfg aois i (key, rows) st) = ledger st
     \<and> tasks (process_unit env cfg aois i (key, rows) st) = tasks st
     \<and> (\<forall>ev \<in> set (new_events st (process_unit env cfg aois i (key, rows) st)).
           \<not> is_metric_computation ev \<and> \<not> is_export ev \<and> \<not> is_ledger_write ev)"
proof (cases rule: process_unit_cases [of env cfg aois i key rows st])
  case (running_raised e)
  then show ?thesis
    using unit_head_quiet [of i key "Inl e"] handler_events_quiet [of i key "Some e"]
    by (auto simp: new_events_append)
next
  case already_running
  then show ?thesis
    using unit_head_quiet [of i key "Inr True"]
    by (auto simp: new_events_append)
next
  case (select_raised e)
  then show ?thesis
    using unit_head_quiet [of i key "Inr False"] handler_events_quiet [of i key "Some e"]
    by (auto simp: new_events_append)
next
  case (downloaded row)
  then show ?thesis
    using unit_head_quiet [of i key "Inr False"]
    by (auto simp: new_events_append)
next
  case (metrics_failed e pre)
  with assms show ?thesis by simp
next
  case (export_raised e pre spec)
  with assms show ?thesis by simp
next
  case (submitted pre spec t row r)
  with assms show ?thesis by simp
next
  case (rejected pre row r)
  with assms show ?thesis by simp
qed

lemma process_unit_keeps_downloaded:
  assumes "ledger st k = Some r" "row_status r = 1"
  shows "ledger (process_unit env cfg aois i grp st) k = Some r"
proof -
  obtain key rows where grp: "grp = (key, rows)" by (cases grp) auto
  have "ledger (process_unit env cfg aois i (key, rows) st) k = Some r"
  proof (cases rule: process_unit_cases [of env cfg aois i key rows st])
    case (submitted pre spec t row r')
    with assms have "k \<noteq> desc_of key" by auto
    with submitted assms show ?thesis
      by (auto simp: upsert_def split: option.splits)
  next
    case (rejected pre row r')
    with assms have "k \<noteq> desc_of key" by auto
    with rejected assms show ?thesis
      by (auto simp: upsert_def split: option.splits)
  qed (use assms in simp_all)
  then show ?thesis by (simp add: grp)
qed

lemma image_loop_keeps_downloaded:
  assumes "ledger st k = Some r" "row_status r = 1"
  shows "ledger (image_loop env cfg aois i grps st) k = Some r"
  using assms
  by (induction grps arbitrary: i st) (simp_all add: process_unit_keeps_downloaded)

text \<open>
  C2. A unit whose ledger row has status 1 when the run starts is skipped when
  its turn comes, whatever the other fields of the row hold and whatever the
  collaborators answer: the units before it leave the row as it is, and its own
  turn leaves the ledger and the task list unchanged and holds no metric
  computation, no export call and no ledger write.
\<close>

theorem downloaded_unit_skipped:
  assumes "ledger st (desc_of key) = Some r" and "row_status r = 1"
  shows "let st1 = image_loop env cfg aois i earlier st;
             st2 = process_unit env cfg aois (i + length earlier) (key, rows) st1
         in ledger st1 (desc_of key) = Some r
            \<and> ledger st2 = ledger st1 \<and> tasks st2 = tasks st1
            \<and> (\<forall>ev \<in> set (new_events st1 st2).
                  \<not> is_metric_computation ev \<and> \<not> is_export ev \<and> \<not> is_ledger_write ev)"
proof -
  let ?st1 = "image_loop env cfg aois i earlier st"
  have a: "ledger ?st1 (desc_of key) = Some r"
    using assms by (rule image_loop_keeps_downloaded)
  from process_unit_downloaded [OF a assms(2)] a show ?thesis
    by (simp add: Let_def)
qed

theorem downloaded_unit_skipped_witness:
  "ledger done_state (desc_of sample_key) = Some done_row \<and> row_status done_row = 1
   \<and> ledger (process_unit sample_env sample_cfg [sample_aoi] 0 (sample_key, [sample_scene])
          done_state) = ledger done_state
   \<and> tasks (process_unit sample_env sample_cfg [sample_aoi] 0 (sample_key, [sample_scene])
          done_state) = tasks done_state"
proof -
  have h1: "ledger done_state (desc_of sample_key) = Some done_row"
    by (simp add: sample_defs string_defs)
  have h2: "row_status done_row = 1"
    by (simp add: done_row_def)
  from downloaded_unit_skipped [OF h1 h2, of sample_env sample_cfg "[sample_aoi]" 0 "[]"
      "[sample_scene]"] h1 h2
  show ?thesis by (simp add: Let_def)
qed

subsection \<open>The submission of a unit\<close>

















lemmas run_defs = unit_defs sample_defs string_defs unit_head_def quality_gate_def
  thresh_valid_def thresh_cloud_def tracking_env_def twin_key_def exports_of_def

lemma twin_run_exports:
  "exports_of ''G1_S2_2022-03-01''
     (trace (image_loop tracking_env sample_cfg [sample_aoi] 0
        [(sample_key, [sample_scene]), (twin_key, [sample_scene\<lparr>satellite := ''S2B''\<rparr>])]
        empty_state)) = [EvExport sample_spec (Inr 7)]"
  by (simp add: run_defs)

lemma twin_run_skipped:
  "new_events
     (process_unit tracking_env sample_cfg [sample_aoi] 0 (sample_key, [sample_scene]) empty_state)
     (image_loop tracking_env sample_cfg [sample_aoi] 0
        [(sample_key, [sample_scene]), (twin_key, [sample_scene\<lparr>satellite := ''S2B''\<rparr>])]
        empty_state) =
   unit_head 1 twin_key (Inr True) @ [EvLog (LTaskAlreadyRunning ''G1_S2_2022-03-01'')]"
  by (simp add: run_defs)

subsection \<open>A metric computation that raises\<close>

lemma drop_last_two: "drop (length (xs @ [a, b]) - 2) (xs @ [a, b]) = [a, b]"
  by simp

text \<open>
  C4, as the code has it. When a metric computation of a unit raises, the turn
  writes nothing to the ledger (the row of the unit stays as it was: the handler
  of line 542 only warns and prints the traceback), submits nothing, ends with
  the warning and the traceback of that exception, and the loop goes on with the
  next unit. Whatever is raised in any turn, every unit of the list gets its
  turn: the title line of each is in the trace of the loop.
\<close>

theorem metric_failure_isolated:
  fixes env cfg aois i key rows st
  defines "st' \<equiv> process_unit env cfg aois i (key, rows) st"
  defines "evs \<equiv> new_events st st'"
  shows "(ev \<in> set evs \<and> metric_failure ev = Some e \<longrightarrow>
            ledger st' = ledger st \<and> tasks st' = tasks st
            \<and> (\<forall>ev' \<in> set evs. \<not> is_export ev' \<and> \<not> is_ledger_write ev')
            \<and> drop (length evs - 2) evs = [EvWarn i key, EvLog (LTraceback e)]
            \<and> image_loop env cfg aois i ((key, rows) # rest) st =
                image_loop env cfg aois (Suc i) rest st')
     \<and> (\<forall>j < length grps.
            EvLog (LProcessing (n + j) (fst (grps ! j)))
              \<in> set (trace (image_loop env cfg aois n grps st0)))"
proof -
  have hq: "\<forall>ev \<in> set (unit_head i key ans). \<not> is_export ev \<and> \<not> is_ledger_write ev
       \<and> metric_failure ev = None" for ans
    using unit_head_quiet [of i key ans] by blast
  have hh: "\<forall>ev \<in> set (handler_events i key r). \<not> is_export ev \<and> \<not> is_ledger_write ev
       \<and> metric_failure ev = None" for r
    using handler_events_quiet [of i key r] by blast
  have part1: "ledger st' = ledger st \<and> tasks st' = tasks st
            \<and> (\<forall>ev' \<in> set evs. \<not> is_export ev' \<and> \<not> is_ledger_write ev')
            \<and> drop (length evs - 2) evs = [EvWarn i key, EvLog (LTraceback e)]
            \<and> image_loop env cfg aois i ((key, rows) # rest) st =
                image_loop env cfg aois (Suc i) rest st'"
    if ev: "ev \<in> set evs" and mf: "metric_failure ev = Some e"
  proof (cases rule: process_unit_cases [of env cfg aois i key rows st])
    case (running_raised e')
    then have "evs = unit_head i key (Inl e') @ handler_events i key (Some e')"
      by (simp add: evs_def st'_def new_events_append)
    with ev mf hq [of "Inl e'"] hh [of "Some e'"] show ?thesis by auto
  next
    case already_running
    then have "evs = unit_head i key (Inr True) @ [EvLog (LTaskAlreadyRunning (desc_of key))]"
      by (simp add: evs_def st'_def new_events_append)
    with ev mf hq [of "Inr True"] show ?thesis by auto
  next
    case (select_raised e')
    then have "evs = unit_head i key (Inr False) @
        [EvLog LQueryingDatabase, EvSelect (desc_of key) (Inl e')] @ handler_events i key (Some e')"
      by (simp add: evs_def st'_def new_events_append)
    with ev mf hq [of "Inr False"] hh [of "Some e'"] show ?thesis by auto
  next
    case (downloaded row)
    then have "evs = unit_head i key (Inr False) @
        [EvLog LQueryingDatabase, EvSelect (desc_of key) (Inr (ledger st (desc_of key))),
         EvLog LImageFound, EvLog LDownloaded, EvLog LSkippingExisting]"
      by (simp add: evs_def st'_def new_events_append)
    with ev mf hq [of "Inr False"] show ?thesis by auto
  next
    case (export_raised e' pre spec)
    then have "evs = unit_head i key (Inr False) @
        [EvLog LQueryingDatabase, EvSelect (desc_of key) (Inr (ledger st (desc_of key)))] @ pre @
        [EvExport spec (Inl e')] @ handler_events i key (Some e')"
      by (simp add: evs_def st'_def new_events_append)
    with ev mf hq [of "Inr False"] hh [of "Some e'"] export_raised(6) show ?thesis
      by (auto simp: quiet_def)
  next
    case (submitted pre spec t row r)
    then have "evs = unit_head i key (Inr False) @
        [EvLog LQueryingDatabase, EvSelect (desc_of key) (Inr (ledger st (desc_of key)))] @ pre @
        [EvExport spec (Inr t), EvLog (LNumTasks (length (tasks st'))), EvLog LUpdatingDatabase,
         EvUpsert (desc_of key) row r] @ handler_events i key r"
      by (simp add: evs_def st'_def new_events_append)
    with ev mf hq [of "Inr False"] hh [of r] submitted(8) show ?thesis
      by (auto simp: quiet_def)
  next
    case (rejected pre row r)
    then have "evs = unit_head i key (Inr False) @
        [EvLog LQueryingDatabase, EvSelect (desc_of key) (Inr (ledger st (desc_of key)))] @ pre @
        [EvUpsert (desc_of key) row r] @ handler_events i key r"
      by (simp add: evs_def st'_def new_events_append)
    with ev mf hq [of "Inr False"] hh [of r] rejected(7) show ?thesis
      by (auto simp: quiet_def)
  next
    case (metrics_failed e' pre)
    let ?A = "unit_head i key (Inr False) @
        [EvLog LQueryingDatabase, EvSelect (desc_of key) (Inr (ledger st (desc_of key)))] @ pre"
    from metrics_failed have evs: "evs = ?A @ [EvWarn i key, EvLog (LTraceback e')]"
      by (simp add: evs_def st'_def new_events_append handler_events_def)
    from ev mf hq [of "Inr False"] have "ev \<in> set pre"
      by (auto simp: evs)
    with metrics_failed(5) mf have e: "e' = e" by auto
    have a: "ledger st' = ledger st" "tasks st' = tasks st"
      using metrics_failed by (simp_all add: st'_def)
    have b: "\<forall>ev' \<in> set evs. \<not> is_export ev' \<and> \<not> is_ledger_write ev'"
      using hq [of "Inr False"] metrics_failed(5) by (auto simp: evs)
    have c: "drop (length evs - 2) evs = [EvWarn i key, EvLog (LTraceback e)]"
      unfolding evs e by (rule drop_last_two)
    have d: "image_loop env cfg aois i ((key, rows) # rest) st =
                image_loop env cfg aois (Suc i) rest st'"
      by (simp add: st'_def)
    from a b c d show ?thesis by (intro conjI)
  qed
  have part2: "\<forall>j < length grps.
            EvLog (LProcessing (n + j) (fst (grps ! j)))
              \<in> set (trace (image_loop env cfg aois n grps st0))"
    using image_loop_titles by blast
  from part1 part2 show ?thesis by blast
qed

lemma failing_run_trace:
  "new_events empty_state
     (process_unit failing_env sample_cfg [sample_aoi] 0 (sample_key, [sample_scene]) empty_state) =
   unit_head 0 sample_key (Inr False) @
   [EvLog LQueryingDatabase, EvSelect ''G1_S2_2022-03-01'' (Inr None),
    EvValidPercentage ''G1'' (Inr (95 / 100)), EvLog LFormattingS2,
    EvGetInfo [''COPERNICUS/S2_HARMONIZED/20220301T001''] (Inl (RaisedError ''EEException'')),
    EvWarn 0 sample_key, EvLog (LTraceback (RaisedError ''EEException''))]"
  by (simp add: unit_defs failing_env_def sample_defs string_defs unit_head_def)

text \<open>
  The claim that the failed unit is recorded with status 0 does not hold: on the
  sample inputs, with a remote computation that raises, the ledger has no row for
  the unit afterwards.
\<close>

theorem metric_failure_recorded_counterexample:
  "EvGetInfo [''COPERNICUS/S2_HARMONIZED/20220301T001''] (Inl (RaisedError ''EEException''))
     \<in> set (trace (process_unit failing_env sample_cfg [sample_aoi] 0
                     (sample_key, [sample_scene]) empty_state))
   \<and> ledger (process_unit failing_env sample_cfg [sample_aoi] 0
               (sample_key, [sample_scene]) empty_state) (desc_of sample_key) = None
   \<and> \<not> (\<exists>row. ledger (process_unit failing_env sample_cfg [sample_aoi] 0
               (sample_key, [sample_scene]) empty_state) (desc_of sample_key) = Some row
            \<and> row_status row = 0)"
  by (simp add: unit_defs failing_env_def sample_defs string_defs)

theorem metric_failure_isolated_witness:
  "EvGetInfo [''COPERNICUS/S2_HARMONIZED/20220301T001''] (Inl (RaisedError ''EEException''))
     \<in> set (new_events empty_state (process_unit failing_env sample_cfg [sample_aoi] 0
                     (sample_key, [sample_scene]) empty_state))
   \<and> metric_failure (EvGetInfo [''COPERNICUS/S2_HARMONIZED/20220301T001'']
         (Inl (RaisedError ''EEException''))) = Some (RaisedError ''EEException'')
   \<and> ledger (process_unit failing_env sample_cfg [sample_aoi] 0
               (sample_key, [sample_scene]) empty_state) = ledger empty_state
   \<and> tasks (process_unit failing_env sample_cfg [sample_aoi] 0
               (sample_key, [sample_scene]) empty_state) = tasks empty_state
   \<and> EvLog (LProcessing 0 sample_key)
       \<in> set (trace (image_loop failing_env sample_cfg [sample_aoi] 0
                       [(sample_key, [sample_scene])] empty_state))"
proof -
  let ?ev = "EvGetInfo [''COPERNICUS/S2_HARMONIZED/20220301T001'']
      (Inl (RaisedError ''EEException''))"
  let ?st' = "process_unit failing_env sample_cfg [sample_aoi] 0
      (sample_key, [sample_scene]) empty_state"
  have h1: "?ev \<in> set (new_events empty_state ?st')"
    by (simp only: failing_run_trace) simp
  have h2: "metric_failure ?ev = Some (RaisedError ''EEException'')"
    by simp
  note t = metric_failure_isolated [where env = failing_env and cfg = sample_cfg
      and aois = "[sample_aoi]" and i = 0 and key = sample_key and rows = "[sample_scene]"
      and st = empty_state and ev = ?ev and e = "RaisedError ''EEException''"
      and grps = "[(sample_key, [sample_scene])]" and n = 0 and ?st0.0 = empty_state]
  from t h1 h2 have "ledger ?st' = ledger empty_state" "tasks ?st' = tasks empty_state"
    by blast+
  moreover from t have "EvLog (LProcessing 0 sample_key)
       \<in> set (trace (image_loop failing_env sample_cfg [sample_aoi] 0
                       [(sample_key, [sample_scene])] empty_state))"
    by fastforce
  ultimately show ?thesis using h1 h2 by blast
qed

subsection \<open>The permanent water layer\<close>

lemmas water_defs = process_aoi_def water_body_def run_select_def do_update_download_def
  tq_write_def emit_def Let_def lookup_name_def main_scope_def new_events_def

lemma patch_name_unbound:
  "lookup_name (main_scope cfg image_id crs folder) ''patch_name'' = Inl (NameError ''patch_name'')"
  by (simp add: lookup_name_def main_scope_def)

lemma process_aoi_trace:
  "\<exists>evs. trace (process_aoi env cfg aoi_geom st) =
      trace st @ EvLog (LProcessingPatch (aoi_patch_name aoi_geom)) # evs"
  by (auto simp: water_defs split: prod.splits sum.splits option.splits if_splits)

lemma process_aoi_ledger:
  "ledger (process_aoi env cfg aoi_geom st) = ledger st
   \<and> (\<forall>ev \<in> set (new_events st (process_aoi env cfg aoi_geom st)). \<not> is_ledger_write ev)"
  by (auto simp: water_defs split: prod.splits sum.splits option.splits if_splits)

lemma process_aoi_submitted:
  assumes "EvDownloadPermanentWater n (Inr (Some t))
             \<in> set (new_events st (process_aoi env cfg aoi_geom st))"
  shows "tasks (process_aoi env cfg aoi_geom st) = tasks st @ [t]
    \<and> dropWhile (\<lambda>ev. ev \<noteq> EvDownloadPermanentWater n (Inr (Some t)))
          (new_events st (process_aoi env cfg aoi_geom st)) =
        [EvDownloadPermanentWater n (Inr (Some t)), EvLog LSubmittedWater,
         EvWarnWater (aoi_patch_name aoi_geom), EvLog (LTraceback (NameError ''patch_name''))]"
  using assms
  by (auto simp: water_defs split: prod.splits sum.splits option.splits if_splits)

lemma water_loop_trace:
  "\<exists>evs. trace (water_loop env cfg aois st) = trace st @ evs"
proof (induction aois arbitrary: st)
  case Nil
  then show ?case by simp
next
  case (Cons a aois)
  from process_aoi_trace [of env cfg a st]
  obtain e1 where e1: "trace (process_aoi env cfg a st) = trace st @ e1" by blast
  from Cons.IH [of "process_aoi env cfg a st"]
  obtain e2 where "trace (water_loop env cfg aois (process_aoi env cfg a st))
      = trace (process_aoi env cfg a st) @ e2" by blast
  with e1 show ?case by simp
qed

lemma water_loop_titles:
  "j < length aois \<Longrightarrow>
   EvLog (LProcessingPatch (aoi_patch_name (aois ! j))) \<in> set (trace (water_loop env cfg aois st))"
proof (induction aois arbitrary: j st)
  case Nil
  then show ?case by simp
next
  case (Cons a aois)
  let ?s = "process_aoi env cfg a st"
  show ?case
  proof (cases j)
    case 0
    from process_aoi_trace [of env cfg a st]
    have "EvLog (LProcessingPatch (aoi_patch_name a)) \<in> set (trace ?s)" by auto
    moreover from water_loop_trace [of env cfg aois ?s]
    have "set (trace ?s) \<subseteq> set (trace (water_loop env cfg aois ?s))" by auto
    ultimately show ?thesis using 0 by auto
  next
    case (Suc j')
    with Cons.prems have "j' < length aois" by simp
    from Cons.IH [OF this, of ?s] Suc show ?thesis by simp
  qed
qed

text \<open>
  C10. In the turn of a grid patch in which \<open>download_permanent_water\<close> returns a
  task, the task is appended to the task list, and from that call on the turn
  holds only the line of the submission and the handler's warning and traceback
  of \<open>NameError\<close> for \<open>patch_name\<close>: the name is bound nowhere in the scope of
  line 599, so \<open>do_update_download\<close> is never called. The turn writes nothing to
  the ledger, and the loop goes on: every grid patch gets its turn.
\<close>

theorem water_layer_record_not_written:
  fixes env cfg aoi_geom st
  defines "st' \<equiv> process_aoi env cfg aoi_geom st"
  defines "evs \<equiv> new_events st st'"
  shows "(\<forall>n t. EvDownloadPermanentWater n (Inr (Some t)) \<in> set evs \<longrightarrow>
            tasks st' = tasks st @ [t]
            \<and> dropWhile (\<lambda>ev. ev \<noteq> EvDownloadPermanentWater n (Inr (Some t))) evs =
                [EvDownloadPermanentWater n (Inr (Some t)), EvLog LSubmittedWater,
                 EvWarnWater (aoi_patch_name aoi_geom),
                 EvLog (LTraceback (NameError ''patch_name''))]
            \<and> ledger st' = ledger st
            \<and> (\<forall>ev \<in> set evs. \<not> is_ledger_write ev)
            \<and> water_loop env cfg (aoi_geom # rest) st = water_loop env cfg rest st')
     \<and> lookup_name (main_scope cfg image_id crs folder) ''patch_name''
          = Inl (NameError ''patch_name'')
     \<and> (\<forall>j < length aois.
            EvLog (LProcessingPatch (aoi_patch_name (aois ! j)))
              \<in> set (trace (water_loop env cfg aois st0)))"
proof -
  have part1: "tasks st' = tasks st @ [t]
            \<and> dropWhile (\<lambda>ev. ev \<noteq> EvDownloadPermanentWater n (Inr (Some t))) evs =
                [EvDownloadPermanentWater n (Inr (Some t)), EvLog LSubmittedWater,
                 EvWarnWater (aoi_patch_name aoi_geom),
                 EvLog (LTraceback (NameError ''patch_name''))]
            \<and> ledger st' = ledger st
            \<and> (\<forall>ev \<in> set evs. \<not> is_ledger_write ev)
            \<and> water_loop env cfg (aoi_geom # rest) st = water_loop env cfg rest st'"
    if "EvDownloadPermanentWater n (Inr (Some t)) \<in> set evs" for n t
    using process_aoi_submitted [of n t st env cfg aoi_geom] that
      process_aoi_ledger [of env cfg aoi_geom st]
    by (simp add: st'_def evs_def)
  have part3: "\<forall>j < length aois.
            EvLog (LProcessingPatch (aoi_patch_name (aois ! j)))
              \<in> set (trace (water_loop env cfg aois st0))"
    using water_loop_titles by blast
  from part1 patch_name_unbound [of cfg image_id crs folder] part3
  show ?thesis by blast
qed

lemma sample_water_trace:
  "new_events empty_state (process_aoi sample_env sample_cfg sample_aoi empty_state) =
     [EvLog (LProcessingPatch ''G1''), EvLog LQueryingDatabase,
      EvSelect ''G1_PERMANENTWATERJRC'' (Inr None), EvLog LImageNotAlreadyDownloaded,
      EvLog LCommandingDownload,
      EvDownloadPermanentWater ''G1_PERMANENTWATERJRC'' (Inr (Some 8)),
      EvLog LSubmittedWater, EvWarnWater ''G1'', EvLog (LTraceback (NameError ''patch_name''))]"
  by (simp add: water_defs sample_defs)

theorem water_layer_record_not_written_witness:
  "EvDownloadPermanentWater ''G1_PERMANENTWATERJRC'' (Inr (Some 8))
     \<in> set (new_events empty_state (process_aoi sample_env sample_cfg sample_aoi empty_state))
   \<and> tasks (process_aoi sample_env sample_cfg sample_aoi empty_state) = tasks empty_state @ [8]
   \<and> ledger (process_aoi sample_env sample_cfg sample_aoi empty_state) = ledger empty_state
   \<and> EvLog (LProcessingPatch ''G1'')
       \<in> set (trace (water_loop sample_env sample_cfg [sample_aoi] empty_state))"
proof -
  let ?st' = "process_aoi sample_env sample_cfg sample_aoi empty_state"
  have h: "EvDownloadPermanentWater ''G1_PERMANENTWATERJRC'' (Inr (Some 8))
     \<in> set (new_events empty_state ?st')"
    by (simp only: sample_water_trace) simp
  note t = water_layer_record_not_written [where env = sample_env and cfg = sample_cfg
      and aoi_geom = sample_aoi and st = empty_state and aois = "[sample_aoi]"
      and ?st0.0 = empty_state]
  from t h have "tasks ?st' = tasks empty_state @ [8]" "ledger ?st' = ledger empty_state"
    by blast+
  moreover from t have "EvLog (LProcessingPatch (aoi_patch_name ([sample_aoi] ! 0)))
       \<in> set (trace (water_loop sample_env sample_cfg [sample_aoi] empty_state))"
    by fastforce
  then have "EvLog (LProcessingPatch ''G1'')
       \<in> set (trace (water_loop sample_env sample_cfg [sample_aoi] empty_state))"
    by (simp add: sample_aoi_def)
  ultimately show ?thesis using h by blast
qed

subsection \<open>The task monitor\<close>



























end
